theory Spec2Isabelle
  imports Complex_Main
begin

section \<open>The backing store as the modules see it\<close>

text \<open>
  Every module talks to the remote store through one client. An awaited query resolves to
  an object \<^verbatim>\<open>{ data, error }\<close>: \<open>error\<close> is set when the store reports a failure, and
  \<open>data\<close> is then \<open>null\<close>. The modules only ever test \<open>error\<close> for truthiness, so the
  model keeps one bit for it.
\<close>

datatype 'a reply = Reply (data: "'a option") (error: bool)

text \<open>
  A column value as the store holds it, and a row as the store's filters see it: the
  value of each column by its name.
\<close>

datatype cell = Null | Text string | Integer int | Boolean bool

type_synonym cells = "string \<Rightarrow> cell option"

text \<open>
  What a JavaScript object that is used as a table of counts can hold under a key. The
  loops that count write \<^verbatim>\<open>obj[k] = (obj[k] || 0) + 1\<close> on an object that starts as
  \<^verbatim>\<open>{}\<close>. Such an object inherits the members of \<^verbatim>\<open>Object.prototype\<close>: under a key
  that names one of them and was never written, it holds that member and not
  \<open>undefined\<close>. The member is a function (for \<^verbatim>\<open>__proto__\<close> the prototype itself), which
  is truthy, and adding 1 to it gives a string: the member's text followed by \<open>1\<close>. So a
  value is a number, \<open>Member k\<close> (the member of \<^verbatim>\<open>Object.prototype\<close> named \<open>k\<close>), or
  \<open>Appended k n\<close> (the text of that member followed by \<open>n\<close> digits \<open>1\<close>).
\<close>

datatype counted = Count nat | Member string | Appended string nat

text \<open>
  The JavaScript runtime and the store's operators that the modules call but do not
  define: binary64 addition, division and multiplication, the decimal numeral of an
  integer, \<^verbatim>\<open>parseInt\<close> on the text of a number, \<^verbatim>\<open>Date\<close> parsing (milliseconds since the
  epoch, \<open>None\<close> for an Invalid Date), the string case mappings and \<^verbatim>\<open>trim\<close>. Numbers
  are rationals; a timestamp is its number of milliseconds.

  \<open>or_filter\<close> is the store's reading of the argument of \<^verbatim>\<open>.or(...)\<close>. The client sends
  the string as it is; the store parses it into conditions on columns. The result is
  \<open>None\<close> when the store rejects the string, and the query then reports an error;
  otherwise it is the test the store applies to a row.

  \<open>sort_by_count\<close> is \<^verbatim>\<open>Array.prototype.sort\<close> with the comparator
  \<^verbatim>\<open>(a, b) => b.count - a.count\<close> on an array in which some count is not a number. The
  comparator then yields \<open>NaN\<close>, it is no ordering, and the order of the result is the
  engine's own.
\<close>

record runtime =
  fadd :: "rat \<Rightarrow> rat \<Rightarrow> rat"
  fdiv :: "rat \<Rightarrow> rat \<Rightarrow> rat"
  fmul :: "rat \<Rightarrow> rat \<Rightarrow> rat"
  toString :: "int \<Rightarrow> string"
  parseInt :: "string \<Rightarrow> int"
  Date_parse :: "string \<Rightarrow> int option"
  toLowerCase :: "string \<Rightarrow> string"
  toUpperCase :: "string \<Rightarrow> string"
  trim :: "string \<Rightarrow> string"
  or_filter :: "string \<Rightarrow> (cells \<Rightarrow> bool) option"
  sort_by_count :: "(string \<times> counted) list \<Rightarrow> (string \<times> counted) list"

text \<open>
  \<^verbatim>\<open>new Date(s)\<close> for a string \<open>s\<close>: the empty string is an Invalid Date, every other
  string is handed to the runtime's parser.
\<close>

definition new_Date :: "runtime \<Rightarrow> string \<Rightarrow> int option" where
  "new_Date rt s = (if s = [] then None else Date_parse rt s)"

text \<open>
  \<^verbatim>\<open>a < b\<close> on two dates compares their time values; a comparison with the time value
  \<open>NaN\<close> of an Invalid Date is false.
\<close>

definition js_lt :: "int option \<Rightarrow> int option \<Rightarrow> bool" where
  "js_lt a b = (case a of None \<Rightarrow> False | Some x \<Rightarrow> (case b of None \<Rightarrow> False | Some y \<Rightarrow> x < y))"

text \<open>\<^verbatim>\<open>data || []\<close>: the rows of a reply, none when \<open>data\<close> is \<open>null\<close>.\<close>

definition rows_of :: "'a list reply \<Rightarrow> 'a list" where
  "rows_of r = (case data r of None \<Rightarrow> [] | Some rows \<Rightarrow> rows)"

text \<open>
  \<^verbatim>\<open>v || 'text'\<close> and \<^verbatim>\<open>v || null\<close> on a string that may be \<open>null\<close> or \<open>undefined\<close>: the
  empty string is falsy too.
\<close>

definition or_default :: "string option \<Rightarrow> string \<Rightarrow> string" where
  "or_default v d = (case v of None \<Rightarrow> d | Some s \<Rightarrow> if s = [] then d else s)"

definition or_null :: "string option \<Rightarrow> string option" where
  "or_null v = (case v of None \<Rightarrow> None | Some s \<Rightarrow> if s = [] then None else Some s)"

section \<open>Objects used as tables of counts\<close>

text \<open>
  The names of the members of \<^verbatim>\<open>Object.prototype\<close>, which every object written
  \<^verbatim>\<open>{}\<close> inherits.
\<close>

definition Object_prototype :: "string list" where
  "Object_prototype =
     [''constructor'', ''hasOwnProperty'', ''isPrototypeOf'', ''propertyIsEnumerable'',
      ''toLocaleString'', ''toString'', ''valueOf'', ''__proto__'', ''__defineGetter__'',
      ''__defineSetter__'', ''__lookupGetter__'', ''__lookupSetter__'']"

text \<open>
  The object is the list of its own properties in the order in which they were created.
\<close>

type_synonym counts = "(string \<times> counted) list"

text \<open>
  \<^verbatim>\<open>obj[k] || 0\<close>: the object's own value, else the inherited member, else
  \<open>undefined\<close>, which is falsy and gives 0. Every value the loops write is truthy.
\<close>

definition get_or_0 :: "counts \<Rightarrow> string \<Rightarrow> counted" where
  "get_or_0 obj k =
     (case map_of obj k of
        Some v \<Rightarrow> v
      | None \<Rightarrow> if k \<in> set Object_prototype then Member k else Count 0)"

text \<open>\<^verbatim>\<open>v + 1\<close>: addition on a number, concatenation on anything else.\<close>

definition plus_1 :: "counted \<Rightarrow> counted" where
  "plus_1 v =
     (case v of Count n \<Rightarrow> Count (n + 1) | Member k \<Rightarrow> Appended k 1
      | Appended k n \<Rightarrow> Appended k (n + 1))"

text \<open>
  \<^verbatim>\<open>obj[k] = v\<close> for a number or a string \<open>v\<close>: it overwrites the own property, or
  creates it after the others. Under the key \<^verbatim>\<open>__proto__\<close> the assignment reaches the
  inherited setter, which ignores a value that is not an object, and nothing changes.
\<close>

definition put :: "counts \<Rightarrow> string \<Rightarrow> counted \<Rightarrow> counts" where
  "put obj k v =
     (if k = ''__proto__'' then obj
      else if map_of obj k = None then obj @ [(k, v)]
      else map (\<lambda>entry. if fst entry = k then (k, v) else entry) obj)"

text \<open>\<^verbatim>\<open>obj[k] = (obj[k] || 0) + 1\<close>\<close>

definition bump :: "string \<Rightarrow> counts \<Rightarrow> counts" where
  "bump k obj = put obj k (plus_1 (get_or_0 obj k))"

text \<open>
  \<^verbatim>\<open>Object.entries(obj)\<close> lists the keys that are array indices first, in ascending
  order, and then the other keys in the order in which they were created. An array index
  is the decimal numeral, without leading zeros, of an integer below \<open>2 ^ 32 - 1\<close>.
\<close>

definition digit :: "char \<Rightarrow> nat option" where
  "digit c = map_of (zip ''0123456789'' [0 ..< 10]) c"

definition numeral_value :: "string \<Rightarrow> nat" where
  "numeral_value k = fold (\<lambda>c n. 10 * n + (case digit c of None \<Rightarrow> 0 | Some d \<Rightarrow> d)) k 0"



section \<open>settings.ts: site settings and the maintenance window\<close>

record SiteSettings =
  maintenance_active :: "string option"
  maintenance_start :: "string option"
  maintenance_end :: "string option"
  maintenance_message :: "string option"
  contact_email :: "string option"
  contact_phone :: "string option"
  contact_twitter :: "string option"
  contact_linkedin :: "string option"
  contact_youtube :: "string option"
  contact_facebook :: "string option"

text \<open>
  A row of the \<open>settings\<close> table is a pair of a key and a nullable value. The loop
  \<^verbatim>\<open>settings[row.key] = row.value\<close> builds an object; reading a property that was never
  written gives \<open>undefined\<close>, which like \<open>null\<close> is \<open>None\<close> here.
\<close>

definition collect_settings :: "(string \<times> string option) list \<Rightarrow> (string \<rightharpoonup> string option)" where
  "collect_settings rows = fold (\<lambda>row settings. settings(fst row \<mapsto> snd row)) rows Map.empty"

definition property :: "(string \<rightharpoonup> string option) \<Rightarrow> string \<Rightarrow> string option" where
  "property settings k = (case settings k of None \<Rightarrow> None | Some v \<Rightarrow> v)"

definition getSettings :: "(string \<times> string option) list reply \<Rightarrow> SiteSettings" where
  "getSettings r =
     (if error r then
        \<lparr>maintenance_active = Some ''false'', maintenance_start = None, maintenance_end = None,
         maintenance_message = None, contact_email = None, contact_phone = None,
         contact_twitter = None, contact_linkedin = None, contact_youtube = None,
         contact_facebook = None\<rparr>
      else
        (let settings = collect_settings (rows_of r) in
         \<lparr>maintenance_active =
            Some (or_default (property settings ''maintenance_active'') ''false''),
          maintenance_start = property settings ''maintenance_start'',
          maintenance_end = property settings ''maintenance_end'',
          maintenance_message = property settings ''maintenance_message'',
          contact_email = property settings ''contact_email'',
          contact_phone = property settings ''contact_phone'',
          contact_twitter = property settings ''contact_twitter'',
          contact_linkedin = property settings ''contact_linkedin'',
          contact_youtube = property settings ''contact_youtube'',
          contact_facebook = property settings ''contact_facebook''\<rparr>))"

text \<open>
  \<^verbatim>\<open>s ? new Date(s) : null\<close>: \<open>null\<close>, \<open>undefined\<close> and the empty string are falsy and
  give \<open>null\<close> (the outer \<open>None\<close>); a Date object is truthy even when it is invalid.
\<close>

definition date_or_null :: "runtime \<Rightarrow> string option \<Rightarrow> int option option" where
  "date_or_null rt v =
     (case v of None \<Rightarrow> None | Some s \<Rightarrow> if s = [] then None else Some (new_Date rt s))"

definition isMaintenanceActive ::
  "runtime \<Rightarrow> int \<Rightarrow> (string \<times> string option) list reply \<Rightarrow> bool" where
  "isMaintenanceActive rt now r =
     (let settings = getSettings r in
      if maintenance_active settings \<noteq> Some ''true'' then False
      else
        (let startTime = date_or_null rt (maintenance_start settings);
             endTime = date_or_null rt (maintenance_end settings)
         in if (case startTime of None \<Rightarrow> False | Some t \<Rightarrow> js_lt (Some now) t) then False
            else if (case endTime of None \<Rightarrow> False | Some t \<Rightarrow> js_lt t (Some now)) then False
            else True))"

section \<open>The store and its calls\<close>

text \<open>
  An operation that throws returns \<open>Inl\<close> of the error it throws; \<^verbatim>\<open>new Error(m)\<close> is
  \<open>Error m\<close>, and \<open>TypeError\<close> is a \<^verbatim>\<open>TypeError\<close> that the runtime or the client
  library throws.
\<close>

datatype exn = Error string | TypeError

text \<open>
  Any call to the store may report an error. A fault plan says which: \<open>f n\<close> holds when
  the call at the \<open>n\<close>-th call site of the operation (in source order, a nested
  operation's call sites numbered in place) reports an error. A call that reports an
  error leaves its table as it was.
\<close>

type_synonym faults = "nat \<Rightarrow> bool"

definition calls_from :: "nat \<Rightarrow> faults \<Rightarrow> faults" where
  "calls_from k f = (\<lambda>n. f (k + n))"

text \<open>\<^verbatim>\<open>from(t).select(...)\<close> with its filters as one predicate.\<close>

definition db_select :: "bool \<Rightarrow> ('r \<Rightarrow> bool) \<Rightarrow> 'r list \<Rightarrow> 'r list reply" where
  "db_select fail p table = (if fail then Reply None True else Reply (Some (filter p table)) False)"

text \<open>\<^verbatim>\<open>.single()\<close>: the one row of the result; an error unless there is exactly one.\<close>

definition single :: "'r list reply \<Rightarrow> 'r reply" where
  "single r =
     (case data r of
        None \<Rightarrow> Reply None True
      | Some rows \<Rightarrow> (case rows of [x] \<Rightarrow> Reply (Some x) (error r) | _ \<Rightarrow> Reply None True))"

text \<open>
  The writes return their \<open>error\<close> and the table after the call. \<^verbatim>\<open>upsert\<close> finds the
  row in conflict with the new one by the table's key (\<open>same\<close>) and overwrites the columns
  the payload gives (\<open>merge\<close>); without a conflict it inserts.
\<close>

definition db_insert :: "bool \<Rightarrow> 'r list \<Rightarrow> 'r list \<Rightarrow> bool \<times> 'r list" where
  "db_insert fail rows table = (if fail then (True, table) else (False, table @ rows))"

definition db_update :: "bool \<Rightarrow> ('r \<Rightarrow> bool) \<Rightarrow> ('r \<Rightarrow> 'r) \<Rightarrow> 'r list \<Rightarrow> bool \<times> 'r list" where
  "db_update fail p change table =
     (if fail then (True, table) else (False, map (\<lambda>r. if p r then change r else r) table))"

definition db_delete :: "bool \<Rightarrow> ('r \<Rightarrow> bool) \<Rightarrow> 'r list \<Rightarrow> bool \<times> 'r list" where
  "db_delete fail p table = (if fail then (True, table) else (False, filter (\<lambda>r. \<not> p r) table))"

definition db_upsert ::
  "bool \<Rightarrow> ('r \<Rightarrow> bool) \<Rightarrow> 'r \<Rightarrow> ('r \<Rightarrow> 'r) \<Rightarrow> 'r list \<Rightarrow> bool \<times> 'r list" where
  "db_upsert fail same new merge table =
     (if fail then (True, table)
      else if list_ex same table then (False, map (\<lambda>r. if same r then merge r else r) table)
      else (False, table @ [new]))"

subsection \<open>Tables\<close>

datatype approval = Pending | Approved | Rejected

type_synonym election = "string \<times> string \<times> string \<times> string \<times> string"

record leader_row =
  l_id :: string
  l_name :: string
  l_party_name :: string
  l_gender :: string
  l_age :: int
  l_photo_url :: string
  l_constituency :: string
  l_native_address :: string
  l_election_type :: string
  l_location_state :: "string option"
  l_location_district :: "string option"
  l_rating :: rat
  l_review_count :: nat
  l_previous_elections :: "election list"
  l_manifesto_url :: "string option"
  l_twitter_url :: "string option"
  l_added_by_user_id :: "string option"
  l_created_at :: int
  l_status :: approval
  l_admin_comment :: "string option"

text \<open>
  Modelled from the spec: the declaration of the \<open>ratings\<close> and \<open>comments\<close> tables is not
  among the sources. A rating is "a per-user, per-leader numeric score", so the key of
  both tables, on which \<^verbatim>\<open>upsert\<close> resolves a conflict, is the pair of \<open>userId\<close> and
  \<open>leaderId\<close>. A score is an integer; the code passes it to the store as it comes.
\<close>

record rating_row =
  r_userId :: string
  r_leaderId :: string
  r_rating :: int
  r_createdAt :: "int option"
  r_updatedAt :: int
  r_socialBehaviour :: "string option"

record comment_row =
  c_userId :: string
  c_leaderId :: string
  c_comment :: string
  c_createdAt :: int
  c_updatedAt :: int

text \<open>
  A row of \<open>users\<close>. A column that holds \<open>null\<close>, and a key that was deleted from the
  object, is \<open>None\<close>.
\<close>

record user_row =
  u_id :: string
  u_email :: string
  u_password :: "string option"
  u_name :: "string option"
  u_gender :: "string option"
  u_age :: "int option"
  u_state :: "string option"
  u_mp_constituency :: "string option"
  u_mla_constituency :: "string option"
  u_panchayat :: "string option"
  u_created_at :: int
  u_is_blocked :: bool
  u_blocked_until :: "int option"
  u_block_reason :: "string option"

record admin_message_row =
  m_id :: string
  m_userId :: string
  m_message :: string
  m_isRead :: bool
  m_createdAt :: int

datatype TicketStatus = Open | In_progress | Resolved | Closed

record ticket_row =
  t_id :: string
  t_user_id :: "string option"
  t_user_name :: string
  t_user_email :: string
  t_subject :: string
  t_message :: string
  t_status :: TicketStatus
  t_created_at :: int
  t_updated_at :: int
  t_resolved_at :: "int option"
  t_admin_notes :: "string option"

record store =
  leaders :: "leader_row list"
  ratings :: "rating_row list"
  comments :: "comment_row list"
  users :: "user_row list"
  admin_messages :: "admin_message_row list"
  support_tickets :: "ticket_row list"

text \<open>
  \<^verbatim>\<open>.order(column, { ascending: false })\<close> on a reply. The store does not say in which
  order it returns rows with equal keys. The list that holds a table stands for the order
  in which the store yields its rows, whatever that is, so rows with equal keys come in
  the order of the table: the sort is stable.
\<close>

definition order_desc :: "('r \<Rightarrow> int) \<Rightarrow> 'r list reply \<Rightarrow> 'r list reply" where
  "order_desc key r = Reply (map_option (sort_key (\<lambda>row. - key row)) (data r)) (error r)"

text \<open>
  The rows of \<open>users\<close> and \<open>support_tickets\<close> as the store's filters see them, column
  by column.
\<close>

definition nullable :: "('a \<Rightarrow> cell) \<Rightarrow> 'a option \<Rightarrow> cell" where
  "nullable c v = (case v of None \<Rightarrow> Null | Some x \<Rightarrow> c x)"

definition user_cells :: "user_row \<Rightarrow> cells" where
  "user_cells u =
     map_of
       [(''id'', Text (u_id u)), (''email'', Text (u_email u)),
        (''password'', nullable Text (u_password u)), (''name'', nullable Text (u_name u)),
        (''gender'', nullable Text (u_gender u)), (''age'', nullable Integer (u_age u)),
        (''state'', nullable Text (u_state u)),
        (''mp_constituency'', nullable Text (u_mp_constituency u)),
        (''mla_constituency'', nullable Text (u_mla_constituency u)),
        (''panchayat'', nullable Text (u_panchayat u)),
        (''created_at'', Integer (u_created_at u)), (''is_blocked'', Boolean (u_is_blocked u)),
        (''blocked_until'', nullable Integer (u_blocked_until u)),
        (''block_reason'', nullable Text (u_block_reason u))]"



text \<open>
  A select with the filters \<open>p\<close> and an \<^verbatim>\<open>.or(...)\<close> whose argument is the string \<open>flt\<close>.
  The query reports an error when the call fails or the store rejects the string.
\<close>

definition select_or ::
  "runtime \<Rightarrow> bool \<Rightarrow> string \<Rightarrow> ('r \<Rightarrow> cells) \<Rightarrow> ('r \<Rightarrow> bool) \<Rightarrow> 'r list \<Rightarrow> 'r list reply" where
  "select_or rt fail flt cells_of p table =
     (case or_filter rt flt of
        None \<Rightarrow> Reply None True
      | Some test \<Rightarrow> db_select fail (\<lambda>r. p r \<and> test (cells_of r)) table)"

section \<open>leaders.ts\<close>

record location =
  state :: "string option"
  district :: "string option"

record LeaderData =
  name :: string
  partyName :: string
  gender :: string
  age :: int
  photoUrl :: string
  constituency :: string
  nativeAddress :: string
  electionType :: string
  location :: location
  previousElections :: "election list"
  manifestoUrl :: "string option"
  twitterUrl :: "string option"

record Leader = LeaderData +
  leader_id :: string
  rating :: rat
  reviewCount :: nat
  addedByUserId :: "string option"
  createdAt :: int
  status :: approval
  adminComment :: "string option"
  userName :: "string option"

text \<open>
  \<open>dbToLeader\<close> reads each field under its camel-case name first and its column name
  second. A row of \<open>leaders\<close> has only the column names, so each field is its column;
  \<open>previousElections\<close> and \<open>userName\<close> have no column-name fallback that exists in the
  row (\<open>previous_elections\<close> is never read, there is no column \<open>user_name\<close>), so they are
  the empty list and \<open>undefined\<close>. The three values of \<open>status\<close> are truthy, so the
  default \<open>pending\<close> is never taken.
\<close>

definition dbToLeader :: "leader_row \<Rightarrow> Leader" where
  "dbToLeader dbLeader =
     \<lparr>name = l_name dbLeader, partyName = l_party_name dbLeader, gender = l_gender dbLeader,
      age = l_age dbLeader, photoUrl = l_photo_url dbLeader,
      constituency = l_constituency dbLeader, nativeAddress = l_native_address dbLeader,
      electionType = l_election_type dbLeader,
      location = \<lparr>state = l_location_state dbLeader, district = l_location_district dbLeader\<rparr>,
      previousElections = [], manifestoUrl = l_manifesto_url dbLeader,
      twitterUrl = l_twitter_url dbLeader, leader_id = l_id dbLeader,
      rating = l_rating dbLeader, reviewCount = l_review_count dbLeader,
      addedByUserId = l_added_by_user_id dbLeader, createdAt = l_created_at dbLeader,
      status = l_status dbLeader, adminComment = l_admin_comment dbLeader, userName = None\<rparr>"

definition getLeaderById :: "faults \<Rightarrow> store \<Rightarrow> string \<Rightarrow> Leader option" where
  "getLeaderById f st i =
     (let r = single (db_select (f 0) (\<lambda>l. l_id l = i) (leaders st)) in
      if error r then None
      else (case data r of None \<Rightarrow> None | Some d \<Rightarrow> Some (dbToLeader d)))"

text \<open>
  The columns \<open>updateLeader\<close> writes. The optional fields of its argument
  (\<open>location.state\<close>, \<open>location.district\<close>, \<open>manifestoUrl\<close>, \<open>twitterUrl\<close>) are
  \<open>undefined\<close> when absent. The client sends the object as JSON, which leaves a key with
  the value \<open>undefined\<close> out, so the column of an absent field keeps the value it has.
  The status is never absent, and the admin comment is a string or \<open>null\<close>, read from
  the row or fixed, so both are always written.
\<close>

definition sent :: "'a option \<Rightarrow> 'a option \<Rightarrow> 'a option" where
  "sent field column = (case field of None \<Rightarrow> column | Some v \<Rightarrow> Some v)"

definition updateData :: "LeaderData \<Rightarrow> approval \<Rightarrow> string option \<Rightarrow> leader_row \<Rightarrow> leader_row" where
  "updateData leaderData newStatus newAdminComment row =
     row\<lparr>l_name := name leaderData, l_party_name := partyName leaderData,
         l_gender := gender leaderData, l_age := age leaderData,
         l_photo_url := photoUrl leaderData, l_constituency := constituency leaderData,
         l_native_address := nativeAddress leaderData,
         l_election_type := electionType leaderData,
         l_location_state := sent (state (location leaderData)) (l_location_state row),
         l_location_district := sent (district (location leaderData)) (l_location_district row),
         l_previous_elections := previousElections leaderData,
         l_manifesto_url := sent (manifestoUrl leaderData) (l_manifesto_url row),
         l_twitter_url := sent (twitterUrl leaderData) (l_twitter_url row),
         l_status := newStatus, l_admin_comment := newAdminComment\<rparr>"

definition updateLeader ::
  "faults \<Rightarrow> store \<Rightarrow> string \<Rightarrow> LeaderData \<Rightarrow> string option \<Rightarrow> bool \<Rightarrow>
   (exn + Leader option) \<times> store" where
  "updateLeader f st leaderId leaderData userId isAdmin =
     (case getLeaderById (calls_from 0 f) st leaderId of
        None \<Rightarrow> (Inl (Error ''Leader not found.''), st)
      | Some leaderToUpdate \<Rightarrow>
          if \<not> isAdmin \<and> addedByUserId leaderToUpdate \<noteq> userId
          then (Inl (Error ''You are not authorized to edit this leader.''), st)
          else
            (let newStatus = (if isAdmin then status leaderToUpdate else Pending);
                 newAdminComment =
                   (if isAdmin then adminComment leaderToUpdate
                    else Some ''User updated details. Pending re-approval.'')
             in case db_update (f 1) (\<lambda>l. l_id l = leaderId)
                       (updateData leaderData newStatus newAdminComment) (leaders st) of
                  (err, leaders') \<Rightarrow>
                    if err then (Inl (Error ''Failed to update leader''), st\<lparr>leaders := leaders'\<rparr>)
                    else (Inr (getLeaderById (calls_from 2 f) (st\<lparr>leaders := leaders'\<rparr>) leaderId),
                          st\<lparr>leaders := leaders'\<rparr>)))"

text \<open>
  \<^verbatim>\<open>parseFloat(x.toFixed(2))\<close>: \<open>toFixed\<close> works on the exact value of \<open>x\<close>; it takes
  the sign off, picks the integer \<open>n\<close> with \<open>n / 100\<close> nearest to the magnitude, the
  larger one of two, and the result is the number written \<open>n / 100\<close>.
\<close>

definition toFixed2 :: "rat \<Rightarrow> rat" where
  "toFixed2 x =
     (if x < 0 then - (of_int \<lfloor>(- x) * 100 + 1 / 2\<rfloor> / 100)
      else of_int \<lfloor>x * 100 + 1 / 2\<rfloor> / 100)"

text \<open>\<^verbatim>\<open>allRatings.reduce((sum, r) => sum + r.rating, 0)\<close>; sums of integers are exact.\<close>

definition totalRating :: "rating_row list \<Rightarrow> int" where
  "totalRating allRatings = fold (\<lambda>r sum. sum + r_rating r) allRatings 0"

text \<open>
  The object \<open>submitRatingAndComment\<close> passes to \<^verbatim>\<open>upsert\<close> on \<open>ratings\<close>, as the row it
  inserts and as the change it makes to a row in conflict. \<open>createdAt\<close> is \<open>undefined\<close> when
  a rating was found before (\<open>existing\<close>): the key is then left out of the request, an
  inserted row gets no value for it and a row in conflict keeps its own.
\<close>

definition rating_insert ::
  "bool \<Rightarrow> string \<Rightarrow> string \<Rightarrow> int \<Rightarrow> int \<Rightarrow> string option \<Rightarrow> rating_row" where
  "rating_insert existing userId leaderId newRating now socialBehaviour =
     \<lparr>r_userId = userId, r_leaderId = leaderId, r_rating = newRating,
      r_createdAt = (if existing then None else Some now),
      r_updatedAt = now, r_socialBehaviour = socialBehaviour\<rparr>"

definition rating_overwrite ::
  "bool \<Rightarrow> int \<Rightarrow> int \<Rightarrow> string option \<Rightarrow> rating_row \<Rightarrow> rating_row" where
  "rating_overwrite existing newRating now socialBehaviour old =
     old\<lparr>r_rating := newRating,
         r_createdAt := (if existing then r_createdAt old else Some now),
         r_updatedAt := now, r_socialBehaviour := socialBehaviour\<rparr>"

text \<open>The same for \<open>comments\<close>.\<close>

definition comment_insert :: "string \<Rightarrow> string \<Rightarrow> string \<Rightarrow> int \<Rightarrow> comment_row" where
  "comment_insert userId leaderId comment now =
     \<lparr>c_userId = userId, c_leaderId = leaderId, c_comment = comment,
      c_createdAt = now, c_updatedAt = now\<rparr>"

definition comment_overwrite :: "string \<Rightarrow> int \<Rightarrow> comment_row \<Rightarrow> comment_row" where
  "comment_overwrite comment now old =
     old\<lparr>c_comment := comment, c_createdAt := now, c_updatedAt := now\<rparr>"

text \<open>The columns both operations write to the leader's row.\<close>

definition aggregate :: "rat \<Rightarrow> nat \<Rightarrow> leader_row \<Rightarrow> leader_row" where
  "aggregate averageRating count row =
     row\<lparr>l_rating := toFixed2 averageRating, l_review_count := count\<rparr>"

definition submitRatingAndComment ::
  "runtime \<Rightarrow> faults \<Rightarrow> store \<Rightarrow> int \<Rightarrow> string \<Rightarrow> string \<Rightarrow> int \<Rightarrow> string option \<Rightarrow>
   string option \<Rightarrow> (exn + Leader option) \<times> store" where
  "submitRatingAndComment rt f st now leaderId userId newRating comment socialBehaviour =
     (let existingRating =
            data (single (db_select (f 0) (\<lambda>r. r_userId r = userId \<and> r_leaderId r = leaderId)
                    (ratings st)))
      in case db_upsert (f 1) (\<lambda>r. r_userId r = userId \<and> r_leaderId r = leaderId)
                (rating_insert (existingRating \<noteq> None) userId leaderId newRating now
                   socialBehaviour)
                (rating_overwrite (existingRating \<noteq> None) newRating now socialBehaviour)
                (ratings st) of
           (ratingError, ratings') \<Rightarrow>
             if ratingError then (Inl (Error ''Failed to submit rating''), st\<lparr>ratings := ratings'\<rparr>)
             else
               (let comments' =
                      (case comment of
                         None \<Rightarrow> comments st
                       | Some c \<Rightarrow>
                           if trim rt c \<noteq> [] then
                             snd (db_upsert (f 2)
                                   (\<lambda>r. c_userId r = userId \<and> c_leaderId r = leaderId)
                                   (comment_insert userId leaderId c now)
                                   (comment_overwrite c now) (comments st))
                           else comments st);
                    allRatings = data (db_select (f 3) (\<lambda>r. r_leaderId r = leaderId) ratings');
                    leaders' =
                      (case allRatings of
                         None \<Rightarrow> leaders st
                       | Some rs \<Rightarrow>
                           if length rs > 0 then
                             (let averageRating =
                                    fdiv rt (of_int (totalRating rs)) (of_nat (length rs))
                              in snd (db_update (f 4) (\<lambda>l. l_id l = leaderId)
                                       (aggregate averageRating (length rs)) (leaders st)))
                           else leaders st);
                    st' = st\<lparr>leaders := leaders', ratings := ratings', comments := comments'\<rparr>
                in (Inr (getLeaderById (calls_from 5 f) st' leaderId), st')))"

definition deleteRating ::
  "runtime \<Rightarrow> faults \<Rightarrow> store \<Rightarrow> string \<Rightarrow> string \<Rightarrow> (exn + unit) \<times> store" where
  "deleteRating rt f st userId leaderId =
     (let ratings' =
            snd (db_delete (f 0) (\<lambda>r. r_userId r = userId \<and> r_leaderId r = leaderId) (ratings st));
          comments' =
            snd (db_delete (f 1) (\<lambda>r. c_userId r = userId \<and> c_leaderId r = leaderId) (comments st));
          allRatings = data (db_select (f 2) (\<lambda>r. r_leaderId r = leaderId) ratings');
          newReviewCount = (case allRatings of None \<Rightarrow> 0 | Some rs \<Rightarrow> length rs);
          newAverageRating =
            (if newReviewCount > 0
             then fdiv rt (of_int (case allRatings of None \<Rightarrow> 0 | Some rs \<Rightarrow> totalRating rs))
                    (of_nat newReviewCount)
             else 0);
          leaders' =
            snd (db_update (f 3) (\<lambda>l. l_id l = leaderId)
                  (aggregate newAverageRating newReviewCount) (leaders st))
      in (Inr (), st\<lparr>leaders := leaders', ratings := ratings', comments := comments'\<rparr>))"

section \<open>Support tickets\<close>






section \<open>Users\<close>

text \<open>
  \<open>getUsers\<close> selects each user with three embedded counts: the user's ratings, the
  leaders the user added, and the admin messages to the user.
\<close>

record listed_user =
  listed :: user_row
  ratings_count :: nat
  leaders_count :: nat
  admin_messages_count :: nat

definition with_counts :: "store \<Rightarrow> user_row \<Rightarrow> listed_user" where
  "with_counts st u =
     \<lparr>listed = u,
      ratings_count = length (filter (\<lambda>r. r_userId r = u_id u) (ratings st)),
      leaders_count = length (filter (\<lambda>l. l_added_by_user_id l = Some (u_id u)) (leaders st)),
      admin_messages_count = length (filter (\<lambda>m. m_userId m = u_id u) (admin_messages st))\<rparr>"

text \<open>
  The search: the trimmed term is pasted three times into the argument of \<^verbatim>\<open>.or(...)\<close>,
  \<^verbatim>\<open>name.ilike.%t%,email.ilike.%t%,id.ilike.%t%\<close>. What the store makes of the string
  depends on the term: a comma in it starts a condition of its own.
\<close>

definition user_search :: "string \<Rightarrow> string" where
  "user_search t = ''name.ilike.%'' @ t @ ''%,email.ilike.%'' @ t @ ''%,id.ilike.%'' @ t @ ''%''"

definition getUsers :: "runtime \<Rightarrow> faults \<Rightarrow> store \<Rightarrow> string option \<Rightarrow> listed_user list" where
  "getUsers rt f st searchTerm =
     (let rows = map (with_counts st) (users st);
          query =
            (case searchTerm of
               None \<Rightarrow> db_select (f 0) (\<lambda>row. True) rows
             | Some s \<Rightarrow>
                 if s \<noteq> [] \<and> trim rt s \<noteq> []
                 then select_or rt (f 0) (user_search (trim rt s)) (\<lambda>row. user_cells (listed row))
                        (\<lambda>row. True) rows
                 else db_select (f 0) (\<lambda>row. True) rows);
          r = order_desc (\<lambda>row. u_created_at (listed row)) query
      in if error r then []
         else map (\<lambda>user. user\<lparr>listed := (listed user)\<lparr>u_password := None\<rparr>\<rparr>) (rows_of r))"

definition findUserByEmail :: "runtime \<Rightarrow> faults \<Rightarrow> store \<Rightarrow> string \<Rightarrow> user_row option" where
  "findUserByEmail rt f st email =
     (let r = single (db_select (f 0) (\<lambda>u. u_email u = toLowerCase rt email) (users st)) in
      if error r then None else data r)"

definition findUserById :: "faults \<Rightarrow> store \<Rightarrow> string \<Rightarrow> user_row option" where
  "findUserById f st i =
     (let r = single (db_select (f 0) (\<lambda>u. u_id u = i) (users st)) in
      if error r then None
      else (case data r of None \<Rightarrow> None | Some d \<Rightarrow> Some (d\<lparr>u_password := None\<rparr>)))"

text \<open>What \<open>addUser\<close> reads of its argument.\<close>

record new_user =
  nu_email :: string
  nu_password :: "string option"
  nu_name :: "string option"

text \<open>
  The row \<open>addUser\<close> inserts. The columns it does not send take the store's defaults;
  the declaration of the table is not among the sources, so the defaults are a
  parameter, a row of which only the columns not sent are read.
\<close>

definition newUser :: "runtime \<Rightarrow> user_row \<Rightarrow> int \<Rightarrow> new_user \<Rightarrow> user_row" where
  "newUser rt defaults now user =
     (let name = (case nu_name user of
                    None \<Rightarrow> takeWhile (\<lambda>c. c \<noteq> CHR ''@'') (nu_email user)
                  | Some n \<Rightarrow> if n = [] then takeWhile (\<lambda>c. c \<noteq> CHR ''@'') (nu_email user) else n);
          formattedName = toUpperCase rt (take 1 name) @ drop 1 name
      in defaults\<lparr>u_id := toString rt now, u_email := toLowerCase rt (nu_email user),
           u_password := Some (case nu_password user of None \<Rightarrow> [] | Some pw \<Rightarrow> pw),
           u_name := Some formattedName, u_is_blocked := False\<rparr>)"

definition addUser ::
  "runtime \<Rightarrow> faults \<Rightarrow> user_row \<Rightarrow> store \<Rightarrow> int \<Rightarrow> new_user \<Rightarrow>
   (exn + user_row option) \<times> store" where
  "addUser rt f defaults st now user =
     (case db_insert (f 0) [newUser rt defaults now user] (users st) of
        (err, users') \<Rightarrow>
          if err then (Inr None, st\<lparr>users := users'\<rparr>)
          else (Inr (Some ((newUser rt defaults now user)\<lparr>u_password := None\<rparr>)),
                st\<lparr>users := users'\<rparr>))"

section \<open>Polls\<close>

text \<open>
  A poll as the store returns it, with its questions embedded, and in each question its
  options and, where the query asks for them, its answers. An embedded list that is
  \<open>null\<close> is the empty list.
\<close>

record poll_answer_row =
  a_id :: string
  a_response_id :: string
  a_question_id :: string
  a_selected_option_id :: string

record poll_option_row =
  o_id :: string
  o_question_id :: string
  o_option_text :: string
  o_option_order :: int

record poll_question_row =
  q_id :: string
  q_poll_id :: string
  q_question_text :: string
  q_question_type :: string
  q_question_order :: int
  poll_options :: "poll_option_row list"
  poll_answers :: "poll_answer_row list"

record poll_row =
  p_id :: string
  p_title :: string
  p_description :: "string option"
  p_is_active :: bool
  p_active_until :: "int option"
  p_created_at :: int
  poll_questions :: "poll_question_row list"

text \<open>
  An option of a result. Its \<open>count\<close> is whatever \<open>optionCounts\<close> holds under the option's
  id; its \<open>percentage\<close> is a number or \<open>NaN\<close>, which is \<open>None\<close>.
\<close>

record PollResultOption =
  optionId :: string
  optionText :: string
  count :: counted
  percentage :: "int option"

record PollResult =
  pollId :: string
  questionId :: string
  questionText :: string
  questionType :: string
  options :: "PollResultOption list"
  totalResponses :: nat

text \<open>\<^verbatim>\<open>Math.round\<close>: the nearest integer, the larger of two.\<close>

definition Math_round :: "rat \<Rightarrow> int" where
  "Math_round x = \<lfloor>x + 1 / 2\<rfloor>"

text \<open>
  The loop that counts the answers per option:
  \<^verbatim>\<open>optionCounts[id] = (optionCounts[id] || 0) + 1\<close>, on an object that starts as
  \<^verbatim>\<open>{}\<close>.
\<close>

definition tally :: "poll_answer_row \<Rightarrow> counts \<Rightarrow> counts" where
  "tally answer optionCounts = bump (a_selected_option_id answer) optionCounts"

definition count_answers :: "poll_answer_row list \<Rightarrow> counts" where
  "count_answers answers = fold tally answers []"

text \<open>
  \<^verbatim>\<open>Math.round((c / responses) * 100)\<close> for what \<open>optionCounts\<close> holds: a value
  that is not a number divides to \<open>NaN\<close>, and so does its rounding.
\<close>

definition percent :: "runtime \<Rightarrow> counted \<Rightarrow> nat \<Rightarrow> int option" where
  "percent rt c responses =
     (case c of
        Count n \<Rightarrow> Some (Math_round (fmul rt (fdiv rt (of_nat n) (of_nat responses)) 100))
      | _ \<Rightarrow> None)"

text \<open>The body of the loop over the questions: the result for one question.\<close>

definition question_result :: "runtime \<Rightarrow> string \<Rightarrow> poll_question_row \<Rightarrow> PollResult" where
  "question_result rt pollId' question =
     (let totalResponses = length (poll_answers question);
          optionCounts = count_answers (poll_answers question)
      in \<lparr>pollId = pollId', questionId = q_id question,
          questionText = q_question_text question, questionType = q_question_type question,
          options =
            map (\<lambda>opt.
                  \<lparr>optionId = o_id opt, optionText = o_option_text opt,
                   count = get_or_0 optionCounts (o_id opt),
                   percentage =
                     (if totalResponses > 0
                      then percent rt (get_or_0 optionCounts (o_id opt)) totalResponses
                      else Some 0)\<rparr>)
              (poll_options question),
          totalResponses = totalResponses\<rparr>)"

definition getPollResults :: "runtime \<Rightarrow> poll_row reply \<Rightarrow> string \<Rightarrow> PollResult list" where
  "getPollResults rt r pollId' =
     (case data r of
        None \<Rightarrow> []
      | Some poll \<Rightarrow> map (question_result rt pollId') (poll_questions poll))"

section \<open>leaders.ts: the other operations\<close>


text \<open>
  \<^verbatim>\<open>JSON.stringify\<close> of the previous elections is kept as the list it writes down. An
  optional field that is absent leaves its key out of the request, and the new row has
  \<open>null\<close> in that column.
\<close>

definition newLeader :: "runtime \<Rightarrow> int \<Rightarrow> LeaderData \<Rightarrow> string option \<Rightarrow> leader_row" where
  "newLeader rt now leaderData userId =
     \<lparr>l_id = toString rt now, l_name = name leaderData, l_party_name = partyName leaderData,
      l_gender = gender leaderData, l_age = age leaderData, l_photo_url = photoUrl leaderData,
      l_constituency = constituency leaderData, l_native_address = nativeAddress leaderData,
      l_election_type = electionType leaderData,
      l_location_state = state (location leaderData),
      l_location_district = district (location leaderData),
      l_rating = 0, l_review_count = 0, l_previous_elections = previousElections leaderData,
      l_manifesto_url = manifestoUrl leaderData, l_twitter_url = twitterUrl leaderData,
      l_added_by_user_id = userId, l_created_at = now, l_status = Pending,
      l_admin_comment = None\<rparr>"

definition addLeader ::
  "runtime \<Rightarrow> faults \<Rightarrow> store \<Rightarrow> int \<Rightarrow> LeaderData \<Rightarrow> string option \<Rightarrow> (exn + unit) \<times> store" where
  "addLeader rt f st now leaderData userId =
     (case db_insert (f 0) [newLeader rt now leaderData userId] (leaders st) of
        (err, leaders') \<Rightarrow>
          (if err then Inl (Error ''Failed to add leader'') else Inr (), st\<lparr>leaders := leaders'\<rparr>))"
























definition approveLeader :: "faults \<Rightarrow> store \<Rightarrow> string \<Rightarrow> (exn + unit) \<times> store" where
  "approveLeader f st leaderId =
     (case db_update (f 0) (\<lambda>l. l_id l = leaderId)
             (\<lambda>l. l\<lparr>l_status := Approved, l_admin_comment := Some ''Approved by admin.''\<rparr>)
             (leaders st) of
        (err, leaders') \<Rightarrow>
          (if err then Inl (Error ''Failed to approve leader'') else Inr (),
           st\<lparr>leaders := leaders'\<rparr>))"

definition updateLeaderStatus ::
  "faults \<Rightarrow> store \<Rightarrow> string \<Rightarrow> approval \<Rightarrow> string option \<Rightarrow> (exn + unit) \<times> store" where
  "updateLeaderStatus f st leaderId newStatus adminComment' =
     (case db_update (f 0) (\<lambda>l. l_id l = leaderId)
             (\<lambda>l. l\<lparr>l_status := newStatus, l_admin_comment := adminComment'\<rparr>) (leaders st) of
        (err, leaders') \<Rightarrow>
          (if err then Inl (Error ''Failed to update leader status'') else Inr (),
           st\<lparr>leaders := leaders'\<rparr>))"

definition deleteLeader :: "faults \<Rightarrow> store \<Rightarrow> string \<Rightarrow> (exn + unit) \<times> store" where
  "deleteLeader f st leaderId =
     (let ratings' = snd (db_delete (f 0) (\<lambda>r. r_leaderId r = leaderId) (ratings st));
          comments' = snd (db_delete (f 1) (\<lambda>r. c_leaderId r = leaderId) (comments st))
      in case db_delete (f 2) (\<lambda>l. l_id l = leaderId) (leaders st) of
           (err, leaders') \<Rightarrow>
             (if err then Inl (Error ''Failed to delete leader'') else Inr (),
              st\<lparr>leaders := leaders', ratings := ratings', comments := comments'\<rparr>))"

section \<open>settings.ts: the other operations\<close>

text \<open>
  The operations on \<open>settings\<close>, \<open>site_settings\<close>, \<open>notifications\<close> and the poll tables
  are modelled on the replies of their calls: a read takes the reply of its query, a write
  takes, for each call, whether the call reports an error.
\<close>

text \<open>
  \<open>updateSettings\<close> upserts the entries of its argument one by one, in order, and stops at
  the first that fails; \<open>fails i\<close> says that the upsert of the entry at index \<open>i\<close> reports an
  error. Each value is sent as \<^verbatim>\<open>value?.toString() || null\<close>.
\<close>

fun upsert_each :: "(nat \<Rightarrow> bool) \<Rightarrow> nat \<Rightarrow> (string \<times> string option) list \<Rightarrow> exn + unit" where
  "upsert_each fails i [] = Inr ()"
| "upsert_each fails i (update # updates) =
     (if fails i then Inl (Error (''Failed to update setting: '' @ fst update))
      else upsert_each fails (Suc i) updates)"

definition updateSettings :: "(nat \<Rightarrow> bool) \<Rightarrow> (string \<times> string option) list \<Rightarrow> exn + unit" where
  "updateSettings fails settings =
     upsert_each fails 0 (map (\<lambda>entry. (fst entry, or_null (snd entry))) settings)"




text \<open>The error thrown inside \<^verbatim>\<open>try\<close> is caught and thrown again with the same message.\<close>

definition updateSiteSettings :: "bool \<Rightarrow> exn + unit" where
  "updateSiteSettings err =
     (if err then Inl (Error ''Database transaction for updating settings failed.'') else Inr ())"

section \<open>Notifications\<close>

record notification_row =
  n_id :: string
  n_message :: string
  n_start_time :: "int option"
  n_end_time :: "int option"
  n_is_active :: bool
  n_created_at :: int
  n_link :: "string option"

record NotificationPayload =
  message :: string
  startTime :: "int option"
  endTime :: "int option"
  isActive :: bool
  link :: "string option"

record SiteNotification = NotificationPayload +
  notification_id :: string
  notification_createdAt :: int

definition dbToNotification :: "notification_row \<Rightarrow> SiteNotification" where
  "dbToNotification row =
     \<lparr>message = n_message row, startTime = n_start_time row, endTime = n_end_time row,
      isActive = n_is_active row, link = n_link row, notification_id = n_id row,
      notification_createdAt = n_created_at row\<rparr>"



definition addNotification ::
  "runtime \<Rightarrow> bool \<Rightarrow> int \<Rightarrow> NotificationPayload \<Rightarrow> exn + SiteNotification" where
  "addNotification rt err now payload =
     (if err then Inl (Error ''Failed to add notification'')
      else Inr \<lparr>message = message payload, startTime = startTime payload,
                endTime = endTime payload, isActive = isActive payload, link = link payload,
                notification_id = toString rt now, notification_createdAt = now\<rparr>)"

text \<open>
  \<open>updateNotification\<close> updates and then reads the row back with \<^verbatim>\<open>.single()\<close>, whose reply
  has the row when it has no error.
\<close>

definition updateNotification :: "bool \<Rightarrow> notification_row reply \<Rightarrow> exn + SiteNotification option" where
  "updateNotification err updated =
     (if err then Inl (Error ''Failed to update notification'')
      else if error updated then Inl (Error ''Failed to fetch updated notification'')
      else Inr (map_option dbToNotification (data updated)))"

definition deleteNotification :: "bool \<Rightarrow> exn + unit" where
  "deleteNotification err = (if err then Inl (Error ''Failed to delete notification'') else Inr ())"

section \<open>Polls: the other operations\<close>





text \<open>
  \<open>createPoll\<close> inserts the poll, then for each question in turn the question and, when
  it has any, its options. \<open>question_fails i\<close> and \<open>options_fail i\<close> say that the insert of
  the question at index \<open>i\<close>, or of its options, reports an error.
\<close>

fun insert_questions ::
  "(nat \<Rightarrow> bool) \<Rightarrow> (nat \<Rightarrow> bool) \<Rightarrow> nat \<Rightarrow> poll_question_row list \<Rightarrow> exn + unit" where
  "insert_questions question_fails options_fail i [] = Inr ()"
| "insert_questions question_fails options_fail i (question # questions) =
     (if question_fails i then Inl (Error ''Failed to create poll question'')
      else if poll_options question \<noteq> [] \<and> options_fail i
           then Inl (Error ''Failed to create poll options'')
      else insert_questions question_fails options_fail (Suc i) questions)"

definition createPoll ::
  "runtime \<Rightarrow> bool \<Rightarrow> (nat \<Rightarrow> bool) \<Rightarrow> (nat \<Rightarrow> bool) \<Rightarrow> int \<Rightarrow> poll_row \<Rightarrow> exn + string" where
  "createPoll rt poll_fails question_fails options_fail now pollData =
     (if poll_fails then Inl (Error ''Failed to create poll'')
      else (case insert_questions question_fails options_fail 0 (poll_questions pollData) of
              Inl e \<Rightarrow> Inl e
            | Inr _ \<Rightarrow> Inr (toString rt now)))"

text \<open>
  \<open>submitPollResponse\<close> looks for a response of the user first; the reply's error is not
  read, only whether it has a row.
\<close>

definition submitPollResponse :: "string reply \<Rightarrow> bool \<Rightarrow> bool \<Rightarrow> exn + unit" where
  "submitPollResponse existing response_fails answers_fail =
     (if data existing \<noteq> None then Inl (Error ''User has already responded to this poll'')
      else if response_fails then Inl (Error ''Failed to submit poll response'')
      else if answers_fail then Inl (Error ''Failed to submit poll answers'')
      else Inr ())"


definition updatePollStatus :: "bool \<Rightarrow> exn + unit" where
  "updatePollStatus err = (if err then Inl (Error ''Failed to update poll status'') else Inr ())"

text \<open>
  The client's \<^verbatim>\<open>.in(column, values)\<close> goes through \<open>values\<close> as an array to write the
  filter. \<open>deletePoll\<close> hands it a query that it has built and not awaited, which cannot
  be gone through: the call throws a \<^verbatim>\<open>TypeError\<close> on the spot.
\<close>

datatype in_values = Values "string list" | Query_builder

definition in_filter :: "in_values \<Rightarrow> exn + string list" where
  "in_filter values = (case values of Values vs \<Rightarrow> Inr vs | Query_builder \<Rightarrow> Inl TypeError)"

text \<open>
  \<open>deletePoll\<close> is to delete answers, responses, options and questions without reading
  the replies, then the poll. Its first statement builds the filter of the answers to
  delete with \<^verbatim>\<open>.in('response_id', query)\<close>, so it throws before any request is sent.
\<close>

definition deletePoll :: "bool \<Rightarrow> bool \<Rightarrow> bool \<Rightarrow> bool \<Rightarrow> bool \<Rightarrow> exn + unit" where
  "deletePoll answers_fail responses_fail options_fail questions_fail poll_fails =
     (case in_filter Query_builder of
        Inl e \<Rightarrow> Inl e
      | Inr response_ids \<Rightarrow>
          (case in_filter Query_builder of
             Inl e \<Rightarrow> Inl e
           | Inr question_ids \<Rightarrow>
               if poll_fails then Inl (Error ''Failed to delete poll'') else Inr ()))"

section \<open>Support tickets: the other operations\<close>

record ticket_data =
  td_user_id :: "string option"
  td_user_name :: string
  td_user_email :: string
  td_subject :: string
  td_message :: string

definition createSupportTicket ::
  "runtime \<Rightarrow> faults \<Rightarrow> store \<Rightarrow> int \<Rightarrow> ticket_data \<Rightarrow> (exn + unit) \<times> store" where
  "createSupportTicket rt f st now ticket =
     (case db_insert (f 0)
             [\<lparr>t_id = toString rt now, t_user_id = td_user_id ticket,
               t_user_name = td_user_name ticket, t_user_email = td_user_email ticket,
               t_subject = td_subject ticket, t_message = td_message ticket, t_status = Open,
               t_created_at = now, t_updated_at = now, t_resolved_at = None,
               t_admin_notes = None\<rparr>]
             (support_tickets st) of
        (err, tickets') \<Rightarrow>
          (if err then Inl (Error ''Failed to create support ticket'') else Inr (),
           st\<lparr>support_tickets := tickets'\<rparr>))"

definition updateTicketStatus ::
  "faults \<Rightarrow> store \<Rightarrow> int \<Rightarrow> string \<Rightarrow> TicketStatus \<Rightarrow> string option \<Rightarrow> (exn + unit) \<times> store" where
  "updateTicketStatus f st now ticketId newStatus adminNotes =
     (case db_update (f 0) (\<lambda>t. t_id t = ticketId)
             (\<lambda>t. t\<lparr>t_status := newStatus, t_admin_notes := adminNotes, t_updated_at := now,
                    t_resolved_at :=
                      (if newStatus = Resolved \<or> newStatus = Closed then Some now
                       else t_resolved_at t)\<rparr>)
             (support_tickets st) of
        (err, tickets') \<Rightarrow>
          (if err then Inl (Error ''Failed to update ticket status'') else Inr (),
           st\<lparr>support_tickets := tickets'\<rparr>))"




section \<open>Users: the other operations\<close>

text \<open>
  \<open>updateUserProfile\<close> writes \<open>cleanedData\<close>: the profile data without \<open>id\<close>, \<open>email\<close>,
  \<open>password\<close> and \<open>createdAt\<close>, an empty string and an age that is not a number turned
  into \<open>null\<close>. How the store assigns the keys to columns is not among the sources; the
  model takes the change the data makes to a row.
\<close>

definition updateUserProfile ::
  "faults \<Rightarrow> store \<Rightarrow> string \<Rightarrow> (user_row \<Rightarrow> user_row) \<Rightarrow> (exn + user_row option) \<times> store" where
  "updateUserProfile f st userId cleanedData =
     (case db_update (f 0) (\<lambda>u. u_id u = userId) cleanedData (users st) of
        (err, users') \<Rightarrow>
          if err then (Inr None, st\<lparr>users := users'\<rparr>)
          else (Inr (findUserById (calls_from 1 f) (st\<lparr>users := users'\<rparr>) userId),
                st\<lparr>users := users'\<rparr>))"


definition blockUser ::
  "faults \<Rightarrow> store \<Rightarrow> string \<Rightarrow> string \<Rightarrow> int option \<Rightarrow> (exn + unit) \<times> store" where
  "blockUser f st userId reason blockedUntil =
     (case db_update (f 0) (\<lambda>u. u_id u = userId)
             (\<lambda>u. u\<lparr>u_is_blocked := True, u_block_reason := Some reason,
                    u_blocked_until := blockedUntil\<rparr>)
             (users st) of
        (err, users') \<Rightarrow>
          (if err then Inl (Error ''Failed to block user'') else Inr (), st\<lparr>users := users'\<rparr>))"

definition unblockUser :: "faults \<Rightarrow> store \<Rightarrow> string \<Rightarrow> (exn + unit) \<times> store" where
  "unblockUser f st userId =
     (case db_update (f 0) (\<lambda>u. u_id u = userId)
             (\<lambda>u. u\<lparr>u_is_blocked := False, u_block_reason := None, u_blocked_until := None\<rparr>)
             (users st) of
        (err, users') \<Rightarrow>
          (if err then Inl (Error ''Failed to unblock user'') else Inr (), st\<lparr>users := users'\<rparr>))"

definition addAdminMessage ::
  "runtime \<Rightarrow> faults \<Rightarrow> store \<Rightarrow> int \<Rightarrow> string \<Rightarrow> string \<Rightarrow> (exn + unit) \<times> store" where
  "addAdminMessage rt f st now userId msg =
     (case db_insert (f 0)
             [\<lparr>m_id = toString rt now, m_userId = userId, m_message = msg, m_isRead = False,
               m_createdAt = now\<rparr>]
             (admin_messages st) of
        (err, messages') \<Rightarrow>
          (if err then Inl (Error ''Failed to add admin message'') else Inr (),
           st\<lparr>admin_messages := messages'\<rparr>))"




definition markMessageAsRead :: "faults \<Rightarrow> store \<Rightarrow> string \<Rightarrow> (exn + unit) \<times> store" where
  "markMessageAsRead f st messageId =
     (case db_update (f 0) (\<lambda>m. m_id m = messageId) (\<lambda>m. m\<lparr>m_isRead := True\<rparr>)
             (admin_messages st) of
        (err, messages') \<Rightarrow>
          (if err then Inl (Error ''Failed to mark message as read'') else Inr (),
           st\<lparr>admin_messages := messages'\<rparr>))"

definition deleteAdminMessage :: "faults \<Rightarrow> store \<Rightarrow> string \<Rightarrow> (exn + unit) \<times> store" where
  "deleteAdminMessage f st messageId =
     (case db_delete (f 0) (\<lambda>m. m_id m = messageId) (admin_messages st) of
        (err, messages') \<Rightarrow>
          (if err then Inl (Error ''Failed to delete admin message'') else Inr (),
           st\<lparr>admin_messages := messages'\<rparr>))"


section \<open>The notions the properties are stated in\<close>

text \<open>
  These read the store as the specification speaks of it. The ratings stored for a
  leader, their arithmetic mean, and what it is for a number to be a given number rounded
  to two decimal places: it has at most two decimals and lies within half a hundredth.
\<close>

definition rating_key :: "rating_row \<Rightarrow> string \<times> string" where
  "rating_key r = (r_userId r, r_leaderId r)"

definition leader_ratings :: "store \<Rightarrow> string \<Rightarrow> rating_row list" where
  "leader_ratings st leaderId = filter (\<lambda>r. r_leaderId r = leaderId) (ratings st)"

definition mean_rating :: "rating_row list \<Rightarrow> rat" where
  "mean_rating rs = of_int (sum_list (map r_rating rs)) / of_nat (length rs)"

definition rounded2 :: "rat \<Rightarrow> rat \<Rightarrow> bool" where
  "rounded2 q v \<longleftrightarrow> of_int \<lfloor>v * 100\<rfloor> = v * 100 \<and> \<bar>v - q\<bar> \<le> 1 / 200"

text \<open>
  The leader's row is in step with the ratings: its \<open>review_count\<close> is their number and
  its \<open>rating\<close> their mean rounded to two decimal places, or 0 when there is none.
\<close>

definition aggregate_in_step :: "store \<Rightarrow> string \<Rightarrow> bool" where
  "aggregate_in_step st leaderId \<longleftrightarrow>
     (\<forall>l \<in> set (leaders st). l_id l = leaderId \<longrightarrow>
        l_review_count l = length (leader_ratings st leaderId) \<and>
        (if leader_ratings st leaderId = [] then l_rating l = 0
         else rounded2 (mean_rating (leader_ratings st leaderId)) (l_rating l)))"

text \<open>
  What binary64 arithmetic guarantees of the quotient of two integers it can hold exactly:
  the result is the nearest double, so it is off by at most one part in \<open>2 ^ 53\<close>. Sums of
  integers are exact as long as they stay below \<open>2 ^ 53\<close>; \<open>exactly_summable\<close> keeps the
  scores of a leader well within that, and their number within what an array can hold.
\<close>

definition binary64_division :: "runtime \<Rightarrow> bool" where
  "binary64_division rt \<longleftrightarrow>
     (\<forall>(a::int) (b::nat). \<bar>a\<bar> < 2 ^ 53 \<longrightarrow> 0 < b \<longrightarrow> b < 2 ^ 53 \<longrightarrow>
        \<bar>fdiv rt (of_int a) (of_nat b) - of_int a / of_nat b\<bar> \<le> \<bar>of_int a / of_nat b\<bar> / 2 ^ 53)"

definition exactly_summable :: "rating_row list \<Rightarrow> bool" where
  "exactly_summable rs \<longleftrightarrow> (\<Sum>r\<leftarrow>rs. \<bar>r_rating r\<bar>) < 2 ^ 45 \<and> length rs < 2 ^ 53"



text \<open>The store with every stored password forgotten.\<close>

definition forget_passwords :: "store \<Rightarrow> store" where
  "forget_passwords st = st\<lparr>users := map (\<lambda>u. u\<lparr>u_password := None\<rparr>) (users st)\<rparr>"

text \<open>
  The test that the store applies to a user for a search term of \<open>getUsers\<close>: none
  without a term, and otherwise what the store reads from the filter that the term is
  pasted into, \<open>None\<close> when it rejects it. The search is blind to passwords when that test
  does not depend on the \<open>password\<close> column.
\<close>

definition user_test :: "runtime \<Rightarrow> string option \<Rightarrow> (cells \<Rightarrow> bool) option" where
  "user_test rt searchTerm =
     (case searchTerm of
        None \<Rightarrow> Some (\<lambda>row. True)
      | Some s \<Rightarrow>
          if s \<noteq> [] \<and> trim rt s \<noteq> [] then or_filter rt (user_search (trim rt s))
          else Some (\<lambda>row. True))"

definition password_blind :: "runtime \<Rightarrow> string option \<Rightarrow> bool" where
  "password_blind rt searchTerm \<longleftrightarrow>
     (case user_test rt searchTerm of
        None \<Rightarrow> True
      | Some test \<Rightarrow> \<forall>row v. test (row(''password'' := v)) = test row)"

text \<open>
  For polls: the number of answers of a question that select an option, what it is for
  an integer to be a nearest integer to a number, and the percentage \<open>getPollResults\<close>
  computes from a count and a total. Multiplying by 100 in binary64 is off by at most one
  part in \<open>2 ^ 53\<close> of the product, for a factor that is 0 or a quotient of counts.
\<close>

definition selections :: "poll_question_row \<Rightarrow> string \<Rightarrow> nat" where
  "selections question i = length (filter (\<lambda>a. a_selected_option_id a = i) (poll_answers question))"

definition nearest_integer :: "rat \<Rightarrow> int \<Rightarrow> bool" where
  "nearest_integer q p \<longleftrightarrow> \<bar>of_int p - q\<bar> \<le> 1 / 2"

definition percentage_of :: "runtime \<Rightarrow> nat \<Rightarrow> nat \<Rightarrow> int" where
  "percentage_of rt c t = (if t > 0 then Math_round (fmul rt (fdiv rt (of_nat c) (of_nat t)) 100) else 0)"

definition binary64_times_100 :: "runtime \<Rightarrow> bool" where
  "binary64_times_100 rt \<longleftrightarrow>
     (\<forall>x. x = 0 \<or> (1 / 2 ^ 53 \<le> x \<and> x \<le> 2) \<longrightarrow>
        \<bar>fmul rt x 100 - x * 100\<bar> \<le> x * 100 / 2 ^ 53)"

text \<open>
  The ids of a question's options are plain when none is the name of a member of
  \<^verbatim>\<open>Object.prototype\<close>.

  A result reports a question when it carries the question's id and number of answers,
  and for each option, in order, its id, its text, the number of answers that select it
  and a percentage that is 0 when there is no answer and otherwise a nearest integer to
  the share of the answers that select it; and when every answer selects one of the
  question's options, which have distinct ids, the percentages add up to 100 give or
  take half a point per option.
\<close>

definition plain_ids :: "poll_question_row \<Rightarrow> bool" where
  "plain_ids q \<longleftrightarrow> list_all (\<lambda>opt. o_id opt \<notin> set Object_prototype) (poll_options q)"

definition reports_option :: "poll_question_row \<Rightarrow> poll_option_row \<Rightarrow> PollResultOption \<Rightarrow> bool" where
  "reports_option q opt res \<longleftrightarrow>
     optionId res = o_id opt \<and> optionText res = o_option_text opt \<and>
     count res = Count (selections q (o_id opt)) \<and>
     (if poll_answers q = [] then percentage res = Some 0
      else (case percentage res of
              None \<Rightarrow> False
            | Some p \<Rightarrow>
                nearest_integer
                  (of_nat (selections q (o_id opt)) / of_nat (length (poll_answers q)) * 100) p))"

definition well_answered :: "poll_question_row \<Rightarrow> bool" where
  "well_answered q \<longleftrightarrow>
     poll_answers q \<noteq> [] \<and> distinct (map o_id (poll_options q)) \<and>
     (\<forall>a \<in> set (poll_answers q). a_selected_option_id a \<in> o_id ` set (poll_options q))"

definition reports_question :: "poll_question_row \<Rightarrow> PollResult \<Rightarrow> bool" where
  "reports_question q res \<longleftrightarrow>
     questionId res = q_id q \<and> totalResponses res = length (poll_answers q) \<and>
     list_all2 (reports_option q) (poll_options q) (options res) \<and>
     (well_answered q \<longrightarrow>
        (case those (map percentage (options res)) of
           None \<Rightarrow> False
         | Some ps \<Rightarrow> \<bar>(\<Sum>p\<leftarrow>ps. of_int p) - 100\<bar> \<le> (of_nat (length ps) / 2 :: rat)))"

text \<open>
  A query that failed: the client's reply carries the error and no data.
\<close>

definition failed :: "'a reply \<Rightarrow> bool" where
  "failed r \<longleftrightarrow> error r \<and> data r = None"


section \<open>A sample runtime\<close>

text \<open>
  A runtime with exact arithmetic, a parser that knows three timestamps, a numeral for
  one, a \<^verbatim>\<open>parseInt\<close> for numerals, case mappings and a \<^verbatim>\<open>trim\<close> that leave a string
  alone, and a sort that leaves the entries as they are when a count is not a number. It
  is the concrete input of the examples below.

  Its store reads the argument of \<^verbatim>\<open>.or(...)\<close> as conditions separated by commas, each
  of them \<^verbatim>\<open>column.like.pattern\<close> or \<^verbatim>\<open>column.ilike.pattern\<close>, and rejects any other
  string. A condition holds of a row when the column holds a text that the pattern
  matches; in a pattern \<open>%\<close> stands for any text and \<open>_\<close> for any one character, and
  \<open>ilike\<close> takes no account of the case of the letters A to Z.
\<close>

definition sample_parse :: "string \<Rightarrow> int option" where
  "sample_parse s =
     (if s = ''2024-01-01T00:00:00.000Z'' then Some 1704067200000
      else if s = ''2024-01-02T00:00:00.000Z'' then Some 1704153600000
      else if s = ''2024-03-01T00:00:00.000Z'' then Some 1709251200000
      else None)"

fun sample_like :: "string \<Rightarrow> string \<Rightarrow> bool" where
  "sample_like [] v = (v = [])"
| "sample_like (p # ps) [] = (p = CHR ''%'' \<and> sample_like ps [])"
| "sample_like (p # ps) (c # cs) =
     (if p = CHR ''%'' then sample_like ps (c # cs) \<or> sample_like (p # ps) cs
      else (p = CHR ''_'' \<or> p = c) \<and> sample_like ps cs)"

definition sample_lower :: "char \<Rightarrow> char" where
  "sample_lower c =
     (case map_of (zip ''ABCDEFGHIJKLMNOPQRSTUVWXYZ'' ''abcdefghijklmnopqrstuvwxyz'') c of
        None \<Rightarrow> c
      | Some l \<Rightarrow> l)"

fun sample_split :: "char \<Rightarrow> string \<Rightarrow> string list" where
  "sample_split c [] = [[]]"
| "sample_split c (x # xs) =
     (if x = c then [] # sample_split c xs
      else (case sample_split c xs of [] \<Rightarrow> [[x]] | w # ws \<Rightarrow> (x # w) # ws))"

definition sample_condition :: "string \<Rightarrow> (cells \<Rightarrow> bool) option" where
  "sample_condition condition =
     (let column = takeWhile (\<lambda>c. c \<noteq> CHR ''.'') condition;
          rest = drop 1 (dropWhile (\<lambda>c. c \<noteq> CHR ''.'') condition);
          operator = takeWhile (\<lambda>c. c \<noteq> CHR ''.'') rest;
          pattern = drop 1 (dropWhile (\<lambda>c. c \<noteq> CHR ''.'') rest)
      in if operator = ''like''
         then Some (\<lambda>row. case row column of Some (Text v) \<Rightarrow> sample_like pattern v | _ \<Rightarrow> False)
         else if operator = ''ilike''
         then Some (\<lambda>row. case row column of
                            Some (Text v) \<Rightarrow>
                              sample_like (map sample_lower pattern) (map sample_lower v)
                          | _ \<Rightarrow> False)
         else None)"

definition sample_or :: "string \<Rightarrow> (cells \<Rightarrow> bool) option" where
  "sample_or flt =
     (let conditions = map sample_condition (sample_split CHR '','' flt) in
      if list_all (\<lambda>c. c \<noteq> None) conditions
      then Some (\<lambda>row. list_ex (\<lambda>c. case c of None \<Rightarrow> False | Some test \<Rightarrow> test row) conditions)
      else None)"

definition sample_runtime :: runtime where
  "sample_runtime =
     \<lparr>fadd = (\<lambda>a b. a + b), fdiv = (\<lambda>a b. a / b), fmul = (\<lambda>a b. a * b),
      toString = (\<lambda>n. if n = 1704153600000 then ''1704153600000'' else ''0''),
      parseInt = (\<lambda>s. int (numeral_value s)),
      Date_parse = sample_parse,
      toLowerCase = (\<lambda>s. s), toUpperCase = (\<lambda>s. s), trim = (\<lambda>s. s),
      or_filter = sample_or, sort_by_count = (\<lambda>entries. entries)\<rparr>"

text \<open>A store with one approved leader, added by user \<open>u1\<close>, whom \<open>u1\<close> rated 4.\<close>

definition no_faults :: faults where
  "no_faults = (\<lambda>n. False)"

definition sample_leader :: leader_row where
  "sample_leader =
     \<lparr>l_id = ''L1'', l_name = ''Asha Rao'', l_party_name = ''Unity'', l_gender = ''female'',
      l_age = 52, l_photo_url = ''asha.png'', l_constituency = ''North'',
      l_native_address = ''12 Hill Road'', l_election_type = ''state'',
      l_location_state = Some ''Kerala'', l_location_district = None,
      l_rating = 4, l_review_count = 1, l_previous_elections = [],
      l_manifesto_url = None, l_twitter_url = None, l_added_by_user_id = Some ''u1'',
      l_created_at = 1704067200000, l_status = Approved,
      l_admin_comment = Some ''Approved by admin.''\<rparr>"

definition sample_rating :: rating_row where
  "sample_rating =
     \<lparr>r_userId = ''u1'', r_leaderId = ''L1'', r_rating = 4, r_createdAt = Some 1704067200000,
      r_updatedAt = 1704067200000, r_socialBehaviour = None\<rparr>"

definition sample_data :: LeaderData where
  "sample_data =
     \<lparr>name = ''Asha R. Rao'', partyName = ''Unity'', gender = ''female'', age = 53,
      photoUrl = ''asha.png'', constituency = ''North'', nativeAddress = ''12 Hill Road'',
      electionType = ''state'', location = \<lparr>state = Some ''Kerala'', district = None\<rparr>,
      previousElections = [], manifestoUrl = None, twitterUrl = None\<rparr>"

definition sample_user :: user_row where
  "sample_user =
     \<lparr>u_id = ''u1'', u_email = ''mira@example.org'', u_password = Some ''hunter2'',
      u_name = Some ''Mira'', u_gender = None, u_age = None, u_state = None,
      u_mp_constituency = None, u_mla_constituency = None, u_panchayat = None,
      u_created_at = 1704067200000, u_is_blocked = False, u_blocked_until = None,
      u_block_reason = None\<rparr>"

text \<open>
  Four tickets as of 1 March 2024: one resolved and one open, both untouched since
  1 January; one closed the day before; one in progress since 2 January.
\<close>

definition sample_ticket :: "string \<Rightarrow> TicketStatus \<Rightarrow> int \<Rightarrow> ticket_row" where
  "sample_ticket i s updated =
     \<lparr>t_id = i, t_user_id = Some ''u1'', t_user_name = ''Mira'',
      t_user_email = ''mira@example.org'', t_subject = ''Login'', t_message = ''Cannot log in'',
      t_status = s, t_created_at = 1704067200000, t_updated_at = updated,
      t_resolved_at = None, t_admin_notes = None\<rparr>"

definition sample_tickets :: "ticket_row list" where
  "sample_tickets =
     [sample_ticket ''t1'' Resolved 1704067200000, sample_ticket ''t2'' Open 1704067200000,
      sample_ticket ''t3'' Closed 1709164800000, sample_ticket ''t4'' In_progress 1704153600000]"

definition sample_store :: store where
  "sample_store =
     \<lparr>leaders = [sample_leader], ratings = [sample_rating], comments = [],
      users = [sample_user], admin_messages = [], support_tickets = sample_tickets\<rparr>"

lemmas sample_defs = no_faults_def sample_leader_def sample_rating_def sample_data_def
  sample_store_def sample_runtime_def sample_user_def sample_tickets_def sample_ticket_def

lemmas sample_search_defs = sample_or_def sample_condition_def sample_lower_def Let_def

text \<open>Polls to try \<open>getPollResults\<close> on.\<close>

definition sample_option :: "string \<Rightarrow> poll_option_row" where
  "sample_option i = \<lparr>o_id = i, o_question_id = ''q1'', o_option_text = ''Option'', o_option_order = 1\<rparr>"

definition sample_answer :: "string \<Rightarrow> string \<Rightarrow> poll_answer_row" where
  "sample_answer i sel =
     \<lparr>a_id = i, a_response_id = ''r1'', a_question_id = ''q1'', a_selected_option_id = sel\<rparr>"

definition sample_question ::
  "string \<Rightarrow> string \<Rightarrow> poll_option_row list \<Rightarrow> poll_answer_row list \<Rightarrow> poll_question_row" where
  "sample_question i type opts answers =
     \<lparr>q_id = i, q_poll_id = ''p1'', q_question_text = ''Which?'', q_question_type = type,
      q_question_order = 1, poll_options = opts, poll_answers = answers\<rparr>"

definition sample_poll :: "poll_question_row list \<Rightarrow> poll_row" where
  "sample_poll qs =
     \<lparr>p_id = ''p1'', p_title = ''Poll'', p_description = None, p_is_active = True,
      p_active_until = None, p_created_at = 1704067200000, poll_questions = qs\<rparr>"

section \<open>Verified properties\<close>

subsection \<open>The maintenance window\<close>

lemma date_or_null_Some:
  "date_or_null rt (Some s) = (if s = [] then None else Some (new_Date rt s))"
  by (simp add: date_or_null_def)

lemma js_lt_now_left: "js_lt (Some now) d = (\<exists>ms. d = Some ms \<and> now < ms)"
  by (cases d) (simp_all add: js_lt_def)

lemma js_lt_now_right: "js_lt d (Some now) = (\<exists>ms. d = Some ms \<and> ms < now)"
  by (cases d) (simp_all add: js_lt_def)

lemma start_blocks:
  "(case date_or_null rt v of None \<Rightarrow> False | Some t \<Rightarrow> js_lt (Some now) t) =
   (\<exists>s ms. v = Some s \<and> new_Date rt s = Some ms \<and> now < ms)"
  by (cases v) (auto simp: date_or_null_def js_lt_now_left new_Date_def)

lemma end_blocks:
  "(case date_or_null rt v of None \<Rightarrow> False | Some t \<Rightarrow> js_lt t (Some now)) =
   (\<exists>s ms. v = Some s \<and> new_Date rt s = Some ms \<and> ms < now)"
  by (cases v) (auto simp: date_or_null_def js_lt_now_right new_Date_def)

text \<open>
  C3. \<open>isMaintenanceActive\<close> returns true exactly when the \<open>maintenance_active\<close> setting
  is the string \<open>true\<close>, the current time is not earlier than \<open>maintenance_start\<close> when
  that is set, and not later than \<open>maintenance_end\<close> when that is set; in every other case
  (a failed settings query included, which yields the setting \<open>false\<close>) it returns false.
  A bound is a date the runtime can read; the current time is neither earlier nor later
  than an Invalid Date.
\<close>

theorem isMaintenanceActive_iff:
  "isMaintenanceActive rt now r \<longleftrightarrow>
     maintenance_active (getSettings r) = Some ''true'' \<and>
     (\<forall>s ms. maintenance_start (getSettings r) = Some s \<longrightarrow> new_Date rt s = Some ms \<longrightarrow> ms \<le> now) \<and>
     (\<forall>s ms. maintenance_end (getSettings r) = Some s \<longrightarrow> new_Date rt s = Some ms \<longrightarrow> now \<le> ms)"
proof -
  have "isMaintenanceActive rt now r \<longleftrightarrow>
      maintenance_active (getSettings r) = Some ''true'' \<and>
      \<not> (\<exists>s ms. maintenance_start (getSettings r) = Some s \<and> new_Date rt s = Some ms \<and> now < ms) \<and>
      \<not> (\<exists>s ms. maintenance_end (getSettings r) = Some s \<and> new_Date rt s = Some ms \<and> ms < now)"
    unfolding isMaintenanceActive_def Let_def start_blocks end_blocks by simp
  also have "\<dots> \<longleftrightarrow>
      maintenance_active (getSettings r) = Some ''true'' \<and>
      (\<forall>s ms. maintenance_start (getSettings r) = Some s \<longrightarrow> new_Date rt s = Some ms \<longrightarrow> ms \<le> now) \<and>
      (\<forall>s ms. maintenance_end (getSettings r) = Some s \<longrightarrow> new_Date rt s = Some ms \<longrightarrow> now \<le> ms)"
    by (simp add: not_less)
  finally show ?thesis .
qed

theorem isMaintenanceActive_iff_witness:
  "isMaintenanceActive sample_runtime 1704153600000
     (Reply (Some [(''maintenance_active'', Some ''true''),
                   (''maintenance_start'', Some ''2024-01-01T00:00:00.000Z''),
                   (''maintenance_end'', Some ''2024-03-01T00:00:00.000Z'')]) False) \<and>
   \<not> isMaintenanceActive sample_runtime 1704067199999
     (Reply (Some [(''maintenance_active'', Some ''true''),
                   (''maintenance_start'', Some ''2024-01-01T00:00:00.000Z''),
                   (''maintenance_end'', Some ''2024-03-01T00:00:00.000Z'')]) False)"
  using isMaintenanceActive_iff [of sample_runtime 1704153600000
     "Reply (Some [(''maintenance_active'', Some ''true''),
                   (''maintenance_start'', Some ''2024-01-01T00:00:00.000Z''),
                   (''maintenance_end'', Some ''2024-03-01T00:00:00.000Z'')]) False"]
    isMaintenanceActive_iff [of sample_runtime 1704067199999
     "Reply (Some [(''maintenance_active'', Some ''true''),
                   (''maintenance_start'', Some ''2024-01-01T00:00:00.000Z''),
                   (''maintenance_end'', Some ''2024-03-01T00:00:00.000Z'')]) False"]
  by (simp add: getSettings_def collect_settings_def property_def rows_of_def new_Date_def
      sample_runtime_def sample_parse_def or_default_def)

subsection \<open>Reading and editing a leader\<close>

lemma getLeaderById_eq:
  "getLeaderById f st i =
     (if f 0 then None
      else (case filter (\<lambda>l. l_id l = i) (leaders st) of
              [x] \<Rightarrow> Some (dbToLeader x) | _ \<Rightarrow> None))"
  by (simp add: getLeaderById_def db_select_def single_def split: list.splits)

lemma getLeaderById_Some:
  "getLeaderById f st i = Some l \<longleftrightarrow>
     \<not> f 0 \<and> (\<exists>row. filter (\<lambda>l. l_id l = i) (leaders st) = [row] \<and> l = dbToLeader row)"
  by (auto simp: getLeaderById_eq split: list.splits)

lemma getLeaderById_None:
  "getLeaderById f st i = None \<longleftrightarrow>
     f 0 \<or> (\<forall>row. filter (\<lambda>l. l_id l = i) (leaders st) \<noteq> [row])"
  by (auto simp: getLeaderById_eq split: list.splits)

lemma calls_from_0 [simp]: "calls_from 0 f = f"
  by (simp add: calls_from_def)

lemma addedByUserId_dbToLeader [simp]: "addedByUserId (dbToLeader row) = l_added_by_user_id row"
  by (simp add: dbToLeader_def)

lemma status_dbToLeader [simp]: "status (dbToLeader row) = l_status row"
  by (simp add: dbToLeader_def)

lemma adminComment_dbToLeader [simp]: "adminComment (dbToLeader row) = l_admin_comment row"
  by (simp add: dbToLeader_def)

lemma updateData_simps [simp]:
  "l_id (updateData d s c r) = l_id r"
  "l_status (updateData d s c r) = s"
  "l_admin_comment (updateData d s c r) = c"
  by (simp_all add: updateData_def)

lemma updateLeader_cases:
  "updateLeader f st leaderId leaderData userId isAdmin =
     (case getLeaderById (calls_from 0 f) st leaderId of
        None \<Rightarrow> (Inl (Error ''Leader not found.''), st)
      | Some leaderToUpdate \<Rightarrow>
          if \<not> isAdmin \<and> addedByUserId leaderToUpdate \<noteq> userId
          then (Inl (Error ''You are not authorized to edit this leader.''), st)
          else if f 1 then (Inl (Error ''Failed to update leader''), st)
          else
            (let st' = st\<lparr>leaders := map (\<lambda>r. if l_id r = leaderId
                              then updateData leaderData
                                     (if isAdmin then status leaderToUpdate else Pending)
                                     (if isAdmin then adminComment leaderToUpdate
                                      else Some ''User updated details. Pending re-approval.'') r
                              else r) (leaders st)\<rparr>
             in (Inr (getLeaderById (calls_from 2 f) st' leaderId), st')))"
  by (simp add: updateLeader_def db_update_def Let_def split: option.splits)

lemma updateLeader_result:
  "\<not> isl (fst (updateLeader f st leaderId leaderData userId isAdmin)) \<Longrightarrow>
   updateLeader f st leaderId leaderData userId isAdmin =
     (Inr (getLeaderById (calls_from 2 f)
             (snd (updateLeader f st leaderId leaderData userId isAdmin)) leaderId),
      snd (updateLeader f st leaderId leaderData userId isAdmin))"
  by (auto simp: updateLeader_cases Let_def split: option.splits if_splits)

lemma unique_row:
  assumes "filter P xs = [x]" and "y \<in> set xs" and "P y"
  shows "y = x"
proof -
  have "y \<in> set (filter P xs)" using assms(2,3) by simp
  thus ?thesis unfolding assms(1) by simp
qed

lemma filter_map_if_same:
  "(\<And>r. P (ch r) = P r) \<Longrightarrow>
   filter P (map (\<lambda>r. if P r then ch r else r) xs) = map ch (filter P xs)"
  by (induction xs) auto

lemma filter_map_if_other:
  "(\<And>r. P (ch r) = P r) \<Longrightarrow>
   filter (\<lambda>r. \<not> P r) (map (\<lambda>r. if P r then ch r else r) xs) = filter (\<lambda>r. \<not> P r) xs"
  by (induction xs) auto

text \<open>
  C4. \<open>updateLeader\<close> throws the authorization error exactly when the leader exists (the
  lookup \<open>getLeaderById\<close> returns it; with a store that answers the lookup, when exactly
  one row has the id), the caller is not an admin, and the leader's \<open>addedByUserId\<close>
  differs from the caller's \<open>userId\<close>. The original submitter and an admin therefore never
  get it, and a leader that the lookup does not find raises \<open>Leader not found.\<close> instead.
\<close>

theorem updateLeader_authorization:
  "(fst (updateLeader f st leaderId leaderData userId isAdmin) =
      Inl (Error ''You are not authorized to edit this leader.'') \<longleftrightarrow>
    (\<exists>l. getLeaderById (calls_from 0 f) st leaderId = Some l \<and> \<not> isAdmin \<and>
         addedByUserId l \<noteq> userId)) \<and>
   (getLeaderById (calls_from 0 f) st leaderId = None \<longrightarrow>
      fst (updateLeader f st leaderId leaderData userId isAdmin) = Inl (Error ''Leader not found.'')) \<and>
   (\<not> f 0 \<longrightarrow>
      (fst (updateLeader f st leaderId leaderData userId isAdmin) =
         Inl (Error ''You are not authorized to edit this leader.'') \<longleftrightarrow>
       (\<exists>row. filter (\<lambda>l. l_id l = leaderId) (leaders st) = [row] \<and> \<not> isAdmin \<and>
          l_added_by_user_id row \<noteq> userId)))"
  by (auto simp: updateLeader_cases Let_def getLeaderById_Some getLeaderById_None split: option.splits)

theorem updateLeader_authorization_witness:
  "fst (updateLeader no_faults sample_store ''L1'' sample_data (Some ''u2'') False) =
     Inl (Error ''You are not authorized to edit this leader.'') \<and>
   fst (updateLeader no_faults sample_store ''L1'' sample_data (Some ''u1'') False) \<noteq>
     Inl (Error ''You are not authorized to edit this leader.'') \<and>
   fst (updateLeader no_faults sample_store ''L1'' sample_data (Some ''u2'') True) \<noteq>
     Inl (Error ''You are not authorized to edit this leader.'') \<and>
   fst (updateLeader no_faults sample_store ''L2'' sample_data (Some ''u2'') False) =
     Inl (Error ''Leader not found.'')"
  using updateLeader_authorization [of no_faults sample_store "''L1''" sample_data "Some ''u2''" False]
    updateLeader_authorization [of no_faults sample_store "''L1''" sample_data "Some ''u1''" False]
    updateLeader_authorization [of no_faults sample_store "''L1''" sample_data "Some ''u2''" True]
    updateLeader_authorization [of no_faults sample_store "''L2''" sample_data "Some ''u2''" False]
  by (simp add: getLeaderById_eq sample_defs)

text \<open>
  C8. When \<open>updateLeader\<close> succeeds for a caller who is not an admin, the leader's status
  is \<open>pending\<close> and its admin comment \<open>User updated details. Pending re-approval.\<close>,
  whatever they were; when the caller is an admin, the status and the admin comment of
  every leader are what they were. Either way the leader is still the one row with its
  id, and the other leaders, the ratings and the comments are untouched.
\<close>

theorem updateLeader_status:
  assumes "updateLeader f st leaderId leaderData userId isAdmin = (Inr res, st')"
  shows "(\<not> isAdmin \<longrightarrow>
            (\<forall>l \<in> set (leaders st'). l_id l = leaderId \<longrightarrow>
               l_status l = Pending \<and>
               l_admin_comment l = Some ''User updated details. Pending re-approval.'')) \<and>
         (isAdmin \<longrightarrow>
            map l_status (leaders st') = map l_status (leaders st) \<and>
            map l_admin_comment (leaders st') = map l_admin_comment (leaders st)) \<and>
         length (filter (\<lambda>l. l_id l = leaderId) (leaders st')) = 1 \<and>
         filter (\<lambda>l. l_id l \<noteq> leaderId) (leaders st') = filter (\<lambda>l. l_id l \<noteq> leaderId) (leaders st) \<and>
         ratings st' = ratings st \<and> comments st' = comments st"
proof -
  from assms obtain l where l: "getLeaderById (calls_from 0 f) st leaderId = Some l"
    by (auto simp: updateLeader_cases split: option.splits)
  then obtain row where row: "filter (\<lambda>l. l_id l = leaderId) (leaders st) = [row]" "l = dbToLeader row"
    by (auto simp: getLeaderById_Some)
  let ?ch = "updateData leaderData (if isAdmin then status l else Pending)
               (if isAdmin then adminComment l else Some ''User updated details. Pending re-approval.'')"
  from assms l have st': "st' = st\<lparr>leaders := map (\<lambda>r. if l_id r = leaderId then ?ch r else r) (leaders st)\<rparr>"
    by (auto simp: updateLeader_cases Let_def split: if_splits)
  have id_ch: "\<And>r. l_id (?ch r) = l_id r" by simp
  have same: "\<And>r. r \<in> set (leaders st) \<Longrightarrow> l_id r = leaderId \<Longrightarrow> r = row"
    using unique_row [OF row(1)] by blast
  have ls: "leaders st' = map (\<lambda>r. if l_id r = leaderId then ?ch r else r) (leaders st)"
    by (simp add: st')
  have a: "\<not> isAdmin \<longrightarrow>
            (\<forall>l \<in> set (leaders st'). l_id l = leaderId \<longrightarrow>
               l_status l = Pending \<and>
               l_admin_comment l = Some ''User updated details. Pending re-approval.'')"
  proof (intro impI ballI)
    fix x assume na: "\<not> isAdmin" and x: "x \<in> set (leaders st')" and ix: "l_id x = leaderId"
    from x obtain r where r: "r \<in> set (leaders st)"
      and xr: "x = (if l_id r = leaderId then ?ch r else r)"
      unfolding ls by auto
    from ix xr have "l_id r = leaderId" by (simp split: if_splits)
    with xr na show "l_status x = Pending \<and>
        l_admin_comment x = Some ''User updated details. Pending re-approval.''" by simp
  qed
  have keep: "isAdmin \<Longrightarrow> r \<in> set (leaders st) \<Longrightarrow>
      l_status (if l_id r = leaderId then ?ch r else r) = l_status r \<and>
      l_admin_comment (if l_id r = leaderId then ?ch r else r) = l_admin_comment r" for r
    using same [of r] by (simp add: row(2))
  have b: "isAdmin \<longrightarrow>
            map l_status (leaders st') = map l_status (leaders st) \<and>
            map l_admin_comment (leaders st') = map l_admin_comment (leaders st)"
    unfolding ls map_map o_def using keep by (simp cong: map_cong)
  have "filter (\<lambda>l. l_id l = leaderId) (leaders st') = map ?ch (filter (\<lambda>l. l_id l = leaderId) (leaders st))"
    unfolding ls using filter_map_if_same [of "\<lambda>l. l_id l = leaderId" ?ch "leaders st"] id_ch by simp
  hence c: "length (filter (\<lambda>l. l_id l = leaderId) (leaders st')) = 1"
    by (simp add: row(1))
  have d: "filter (\<lambda>l. l_id l \<noteq> leaderId) (leaders st') = filter (\<lambda>l. l_id l \<noteq> leaderId) (leaders st)"
    unfolding ls using filter_map_if_other [of "\<lambda>l. l_id l = leaderId" ?ch "leaders st"] id_ch by simp
  show ?thesis using a b c d by (simp add: st')
qed

theorem updateLeader_status_witness:
  "\<not> isl (fst (updateLeader no_faults sample_store ''L1'' sample_data (Some ''u1'') False)) \<and>
   map (\<lambda>l. (l_status l, l_admin_comment l))
     (leaders (snd (updateLeader no_faults sample_store ''L1'' sample_data (Some ''u1'') False))) =
     [(Pending, Some ''User updated details. Pending re-approval.'')] \<and>
   \<not> isl (fst (updateLeader no_faults sample_store ''L1'' sample_data None True)) \<and>
   map (\<lambda>l. (l_status l, l_admin_comment l))
     (leaders (snd (updateLeader no_faults sample_store ''L1'' sample_data None True))) =
     [(Approved, Some ''Approved by admin.'')]"
proof -
  have a: "\<not> isl (fst (updateLeader no_faults sample_store ''L1'' sample_data (Some ''u1'') False))"
    by (simp add: updateLeader_cases getLeaderById_eq sample_defs Let_def)
  have b: "\<not> isl (fst (updateLeader no_faults sample_store ''L1'' sample_data None True))"
    by (simp add: updateLeader_cases getLeaderById_eq sample_defs Let_def)
  from updateLeader_status [OF updateLeader_result [OF a]]
       updateLeader_status [OF updateLeader_result [OF b]] a b
  show ?thesis
    by (simp add: updateLeader_cases getLeaderById_eq sample_defs Let_def)
qed

subsection \<open>Ratings: at most one per user and leader\<close>

lemma upsert_failed [simp]: "db_upsert True same new merge table = (True, table)"
  by (simp add: db_upsert_def)

lemma upsert_error [simp]: "fst (db_upsert fail same new merge table) = fail"
  by (simp add: db_upsert_def)

lemma upsert_keys:
  assumes "\<And>r. key (merge r) = key r" and "\<And>r. same r \<longleftrightarrow> key r = k" and "key new = k"
    and "distinct (map key table)"
  shows "distinct (map key (snd (db_upsert fail same new merge table)))"
proof (cases "fail")
  case True
  thus ?thesis using assms(4) by simp
next
  case False
  have keys: "map key (map (\<lambda>r. if same r then merge r else r) table) = map key table"
    by (induction table) (simp_all add: assms(1))
  show ?thesis
  proof (cases "list_ex same table")
    case True
    hence "snd (db_upsert fail same new merge table) = map (\<lambda>r. if same r then merge r else r) table"
      using False by (simp add: db_upsert_def)
    thus ?thesis using keys assms(4) by (simp only:)
  next
    case no: False
    hence "k \<notin> set (map key table)" by (auto simp: list_ex_iff assms(2))
    thus ?thesis using False no assms(3,4) by (simp add: db_upsert_def)
  qed
qed

lemma upsert_others:
  assumes "\<And>r. same (merge r) = same r" and "same new"
  shows "filter (\<lambda>r. \<not> same r) (snd (db_upsert fail same new merge table)) =
         filter (\<lambda>r. \<not> same r) table"
  using assms filter_map_if_other [of same merge table]
  by (simp add: db_upsert_def)

lemma upsert_same:
  assumes "\<And>r. same (merge r) = same r" and "same new"
  shows "filter same (snd (db_upsert False same new merge table)) =
         (if list_ex same table then map merge (filter same table) else [new])"
proof (cases "list_ex same table")
  case True
  thus ?thesis using assms filter_map_if_same [of same merge table] by (simp add: db_upsert_def)
next
  case False
  hence "filter same table = []" by (auto simp: list_ex_iff filter_empty_conv)
  thus ?thesis using False assms(2) by (simp add: db_upsert_def)
qed

lemma upsert_has:
  assumes "\<And>r. same (merge r) = same r" and "same new"
  shows "filter same (snd (db_upsert False same new merge table)) \<noteq> []"
proof -
  have "list_ex same table \<Longrightarrow> filter same table \<noteq> []"
    by (auto simp: list_ex_iff filter_empty_conv)
  thus ?thesis using upsert_same [OF assms, of table] by auto
qed

lemma distinct_key_filter:
  "distinct (map key xs) \<Longrightarrow> length (filter (\<lambda>r. key r = k) xs) \<le> 1"
proof (induction xs)
  case Nil
  show ?case by simp
next
  case (Cons x xs)
  show ?case
  proof (cases "key x = k")
    case True
    with Cons.prems have "\<forall>r \<in> set xs. key r \<noteq> k" by (force simp: image_iff)
    hence "filter (\<lambda>r. key r = k) xs = []" by (simp add: filter_empty_conv)
    thus ?thesis using True by simp
  next
    case False
    thus ?thesis using Cons by simp
  qed
qed

lemma rating_insert_simps [simp]:
  "r_userId (rating_insert e u l n now sb) = u"
  "r_leaderId (rating_insert e u l n now sb) = l"
  "r_rating (rating_insert e u l n now sb) = n"
  by (simp_all add: rating_insert_def)

lemma rating_overwrite_simps [simp]:
  "r_userId (rating_overwrite e n now sb old) = r_userId old"
  "r_leaderId (rating_overwrite e n now sb old) = r_leaderId old"
  "r_rating (rating_overwrite e n now sb old) = n"
  by (simp_all add: rating_overwrite_def)

lemma aggregate_simps [simp]:
  "l_id (aggregate a c row) = l_id row"
  "l_rating (aggregate a c row) = toFixed2 a"
  "l_review_count (aggregate a c row) = c"
  by (simp_all add: aggregate_def)

lemma submit_error:
  "isl (fst (submitRatingAndComment rt f st now leaderId userId newRating comment sb)) = f 1"
  by (simp add: submitRatingAndComment_def Let_def case_prod_beta)

lemma submit_ratings:
  "ratings (snd (submitRatingAndComment rt f st now leaderId userId newRating comment sb)) =
     snd (db_upsert (f 1) (\<lambda>r. r_userId r = userId \<and> r_leaderId r = leaderId)
           (rating_insert
              (data (single (db_select (f 0) (\<lambda>r. r_userId r = userId \<and> r_leaderId r = leaderId)
                 (ratings st))) \<noteq> None) userId leaderId newRating now sb)
           (rating_overwrite
              (data (single (db_select (f 0) (\<lambda>r. r_userId r = userId \<and> r_leaderId r = leaderId)
                 (ratings st))) \<noteq> None) newRating now sb)
           (ratings st))"
  by (simp add: submitRatingAndComment_def Let_def case_prod_beta)

lemma submit_leaders:
  assumes "\<not> f 1" "\<not> f 3" "\<not> f 4"
  shows "leaders (snd (submitRatingAndComment rt f st now leaderId userId newRating comment sb)) =
     (let rs = leader_ratings (snd (submitRatingAndComment rt f st now leaderId userId newRating comment sb)) leaderId
      in if rs = [] then leaders st
         else map (\<lambda>l. if l_id l = leaderId
                  then aggregate (fdiv rt (of_int (totalRating rs)) (of_nat (length rs))) (length rs) l
                  else l) (leaders st))"
  using assms
  by (simp add: submitRatingAndComment_def Let_def leader_ratings_def db_select_def db_update_def
      case_prod_beta)

lemma submit_result:
  "\<not> f 1 \<Longrightarrow>
   submitRatingAndComment rt f st now leaderId userId newRating comment sb =
     (Inr (getLeaderById (calls_from 5 f)
             (snd (submitRatingAndComment rt f st now leaderId userId newRating comment sb)) leaderId),
      snd (submitRatingAndComment rt f st now leaderId userId newRating comment sb))"
  by (simp add: submitRatingAndComment_def Let_def case_prod_beta)

lemma deleteRating_result:
  "deleteRating rt f st userId leaderId = (Inr (), snd (deleteRating rt f st userId leaderId))"
  by (simp add: deleteRating_def Let_def)

lemmas run_defs = submitRatingAndComment_def deleteRating_def db_select_def db_upsert_def
  db_update_def db_delete_def single_def getLeaderById_eq Let_def rating_insert_def
  rating_overwrite_def aggregate_def totalRating_def toFixed2_def floor_eq_iff calls_from_def

text \<open>
  C7, as amended. \<open>submitRatingAndComment\<close> stores the score it is given, whatever it is;
  and when no two rows of \<open>ratings\<close> share a user and a leader before the call, none do
  after it: a successful call leaves exactly one row for the pair, holding the new score,
  in place of the previous row when there was one and as one more row otherwise, and
  every other row is as it was.
\<close>

theorem one_rating_per_pair:
  assumes "distinct (map rating_key (ratings st))"
  shows "distinct (map rating_key
            (ratings (snd (submitRatingAndComment rt f st now leaderId userId newRating comment sb)))) \<and>
         (\<not> isl (fst (submitRatingAndComment rt f st now leaderId userId newRating comment sb)) \<longrightarrow>
            (\<exists>row. filter (\<lambda>r. rating_key r = (userId, leaderId))
                      (ratings (snd (submitRatingAndComment rt f st now leaderId userId newRating
                                       comment sb))) = [row] \<and>
                   r_rating row = newRating) \<and>
            length (ratings (snd (submitRatingAndComment rt f st now leaderId userId newRating
                                    comment sb))) =
              (if (userId, leaderId) \<in> set (map rating_key (ratings st))
               then length (ratings st) else length (ratings st) + 1)) \<and>
         filter (\<lambda>r. rating_key r \<noteq> (userId, leaderId))
            (ratings (snd (submitRatingAndComment rt f st now leaderId userId newRating comment sb))) =
         filter (\<lambda>r. rating_key r \<noteq> (userId, leaderId)) (ratings st)"
proof -
  define e where "e = (data (single (db_select (f 0) (\<lambda>r. r_userId r = userId \<and> r_leaderId r = leaderId)
                 (ratings st))) \<noteq> None)"
  define same where "same = (\<lambda>r. rating_key r = (userId, leaderId))"
  define new where "new = rating_insert e userId leaderId newRating now sb"
  define merge where "merge = rating_overwrite e newRating now sb"
  define R where "R = submitRatingAndComment rt f st now leaderId userId newRating comment sb"
  have same_eq: "(\<lambda>r. r_userId r = userId \<and> r_leaderId r = leaderId) = same"
    by (simp add: same_def rating_key_def)
  have rs: "ratings (snd R) = snd (db_upsert (f 1) same new merge (ratings st))"
    unfolding R_def submit_ratings same_eq new_def merge_def e_def ..
  have km: "\<And>r. rating_key (merge r) = rating_key r" by (simp add: merge_def rating_key_def)
  have sm: "\<And>r. same (merge r) = same r" by (simp add: same_def km)
  have kn: "rating_key new = (userId, leaderId)" by (simp add: new_def rating_key_def)
  have sn: "same new" by (simp add: same_def kn)
  have d: "distinct (map rating_key (ratings (snd R)))"
    unfolding rs by (rule upsert_keys [OF km _ kn assms]) (simp add: same_def)
  have o: "filter (\<lambda>r. \<not> same r) (ratings (snd R)) = filter (\<lambda>r. \<not> same r) (ratings st)"
    unfolding rs by (rule upsert_others [OF sm sn])
  have one: "\<exists>row. filter same (ratings (snd R)) = [row] \<and> r_rating row = newRating"
    and len: "length (ratings (snd R)) =
              (if (userId, leaderId) \<in> set (map rating_key (ratings st))
               then length (ratings st) else length (ratings st) + 1)" if ok: "\<not> isl (fst R)"
  proof -
    from ok have f1: "\<not> f 1" by (simp add: R_def submit_error)
    have le: "length (filter same (ratings (snd R))) \<le> 1"
      unfolding same_def by (rule distinct_key_filter [OF d])
    have ne: "filter same (ratings (snd R)) \<noteq> []"
      unfolding rs using f1 upsert_has [OF sm sn] by simp
    from le ne obtain row where row: "filter same (ratings (snd R)) = [row]"
      by (cases "filter same (ratings (snd R))") auto
    have "filter same (ratings (snd R)) =
            (if list_ex same (ratings st) then map merge (filter same (ratings st)) else [new])"
      unfolding rs using f1 upsert_same [OF sm sn] by simp
    with row have "row = new \<or> (\<exists>old. row = merge old)"
      by (auto split: if_splits)
    hence "r_rating row = newRating" by (auto simp: new_def merge_def)
    with row show "\<exists>row. filter same (ratings (snd R)) = [row] \<and> r_rating row = newRating" by blast
    have ex: "list_ex same (ratings st) \<longleftrightarrow> (userId, leaderId) \<in> set (map rating_key (ratings st))"
      by (force simp: list_ex_iff same_def image_iff)
    show "length (ratings (snd R)) =
              (if (userId, leaderId) \<in> set (map rating_key (ratings st))
               then length (ratings st) else length (ratings st) + 1)"
      unfolding rs ex [symmetric] using f1 by (simp add: db_upsert_def)
  qed
  show ?thesis
    using d o one len unfolding R_def [symmetric] same_def by simp
qed

theorem one_rating_per_pair_witness:
  "distinct (map rating_key (ratings sample_store)) \<and>
   \<not> isl (fst (submitRatingAndComment sample_runtime no_faults sample_store 1704153600000
             ''L1'' ''u1'' 5 None None)) \<and>
   map (\<lambda>r. (rating_key r, r_rating r))
     (ratings (snd (submitRatingAndComment sample_runtime no_faults sample_store 1704153600000
             ''L1'' ''u1'' 5 None None))) = [((''u1'', ''L1''), 5)] \<and>
   map (\<lambda>r. (rating_key r, r_rating r))
     (ratings (snd (submitRatingAndComment sample_runtime no_faults sample_store 1704153600000
             ''L1'' ''u2'' 3 None None))) = [((''u1'', ''L1''), 4), ((''u2'', ''L1''), 3)]"
proof -
  have d: "distinct (map rating_key (ratings sample_store))"
    by (simp add: sample_defs rating_key_def)
  from one_rating_per_pair [OF d, of sample_runtime no_faults 1704153600000 "''L1''" "''u1''" 5 None None]
  show ?thesis
    by (simp add: sample_defs rating_key_def run_defs)
qed

text \<open>
  The claim as stated fails: the score is not checked against the range from 1 to 5. A
  call with the score 7 succeeds and the row it stores holds 7.
\<close>

theorem score_out_of_range_is_stored:
  "\<not> isl (fst (submitRatingAndComment sample_runtime no_faults sample_store 1704153600000
             ''L1'' ''u2'' 7 None None)) \<and>
   map (\<lambda>r. (rating_key r, r_rating r))
     (ratings (snd (submitRatingAndComment sample_runtime no_faults sample_store 1704153600000
             ''L1'' ''u2'' 7 None None))) = [((''u1'', ''L1''), 4), ((''u2'', ''L1''), 7)]"
  by (simp add: sample_defs rating_key_def run_defs)

subsection \<open>The leader's aggregate rating\<close>

lemma fold_plus: "fold (\<lambda>r sum. sum + g r) rs (a::int) = a + sum_list (map g rs)"
  by (induction rs arbitrary: a) simp_all

lemma totalRating_sum: "totalRating rs = sum_list (map r_rating rs)"
  by (simp add: totalRating_def fold_plus)

lemma grid_round:
  fixes y :: rat and a :: int and n :: nat
  assumes n: "0 < n" and close: "\<bar>y - of_int a / of_nat n\<bar> < 1 / (2 * of_nat n)"
  shows "\<bar>of_int \<lfloor>y + 1 / 2\<rfloor> - of_int a / of_nat n\<bar> \<le> (1 / 2 :: rat)"
proof -
  define h where "h = \<lfloor>y + 1 / 2\<rfloor>"
  define q :: rat where "q = of_int a / of_nat n"
  have nn: "(0::rat) < of_nat n" using n by simp
  have h1: "of_int h \<le> y + 1 / 2" unfolding h_def by (rule of_int_floor_le)
  have h2: "y + 1 / 2 < of_int h + 1" unfolding h_def by linarith
  have qn: "q * of_nat n = of_int a" unfolding q_def using nn by simp
  have up: "q - of_int h \<le> 1 / 2"
  proof (rule ccontr)
    assume "\<not> q - of_int h \<le> 1 / 2"
    hence "q > of_int h + 1 / 2" by simp
    hence "q * of_nat n > (of_int h + 1 / 2) * of_nat n" using nn by (simp add: mult_strict_right_mono)
    hence "2 * of_int a > (2 * of_int h + 1) * (of_nat n :: rat)" unfolding qn by (simp add: algebra_simps)
    hence "(of_int (2 * a) :: rat) > of_int ((2 * h + 1) * int n)" by simp
    hence "2 * a > (2 * h + 1) * int n" by (simp only: of_int_less_iff)
    hence "2 * a \<ge> (2 * h + 1) * int n + 1" by simp
    hence "(of_int (2 * a) :: rat) \<ge> of_int ((2 * h + 1) * int n + 1)" by (simp only: of_int_le_iff)
    hence "2 * (q * of_nat n) \<ge> (2 * of_int h + 1) * of_nat n + 1" unfolding qn by simp
    hence "q * of_nat n - (of_int h + 1 / 2) * of_nat n \<ge> 1 / 2" by (simp add: algebra_simps)
    hence "(q - (of_int h + 1 / 2)) * of_nat n \<ge> 1 / 2" by (simp add: algebra_simps)
    hence "q - (of_int h + 1 / 2) \<ge> 1 / 2 / of_nat n" using nn by (simp add: pos_divide_le_eq)
    moreover have "y < of_int h + 1 / 2" using h2 by simp
    ultimately have "q - y > 1 / (2 * of_nat n)" by simp
    with close show False unfolding q_def by linarith
  qed
  have low: "of_int h - q \<le> 1 / 2"
  proof (rule ccontr)
    assume "\<not> of_int h - q \<le> 1 / 2"
    hence "q < of_int h - 1 / 2" by simp
    hence "q * of_nat n < (of_int h - 1 / 2) * of_nat n" using nn by (simp add: mult_strict_right_mono)
    hence "2 * of_int a < (2 * of_int h - 1) * (of_nat n :: rat)" unfolding qn by (simp add: algebra_simps)
    hence "(of_int (2 * a) :: rat) < of_int ((2 * h - 1) * int n)" by simp
    hence "2 * a < (2 * h - 1) * int n" by (simp only: of_int_less_iff)
    hence "2 * a + 1 \<le> (2 * h - 1) * int n" by simp
    hence "(of_int (2 * a + 1) :: rat) \<le> of_int ((2 * h - 1) * int n)" by (simp only: of_int_le_iff)
    hence "2 * (q * of_nat n) + 1 \<le> (2 * of_int h - 1) * of_nat n" unfolding qn by simp
    hence "(of_int h - 1 / 2) * of_nat n - q * of_nat n \<ge> 1 / 2" by (simp add: algebra_simps)
    hence "((of_int h - 1 / 2) - q) * of_nat n \<ge> 1 / 2" by (simp add: algebra_simps)
    hence "(of_int h - 1 / 2) - q \<ge> 1 / 2 / of_nat n" using nn by (simp add: pos_divide_le_eq)
    moreover have "y \<ge> of_int h - 1 / 2" using h1 by simp
    ultimately have "y - q \<ge> 1 / (2 * of_nat n)" by simp
    with close show False unfolding q_def by linarith
  qed
  from up low have "\<bar>of_int h - q\<bar> \<le> 1 / 2" by linarith
  thus ?thesis unfolding h_def q_def .
qed

lemma toFixed2_near:
  fixes x :: rat and t :: int and n :: nat
  assumes n: "0 < n" and t: "\<bar>t\<bar> < 2 ^ 45"
    and x: "\<bar>x - of_int t / of_nat n\<bar> \<le> \<bar>of_int t / of_nat n\<bar> / 2 ^ 53"
  shows "rounded2 (of_int t / of_nat n) (toFixed2 x)"
proof -
  define q :: rat where "q = of_int t / of_nat n"
  have nn: "(0::rat) < of_nat n" using n by simp
  have aq: "\<bar>q\<bar> = of_int \<bar>t\<bar> / of_nat n" unfolding q_def using nn by (simp add: abs_divide)
  have "(of_int \<bar>t\<bar> :: rat) < of_int (2 ^ 45)" using t by (simp only: of_int_less_iff)
  hence tb: "(of_int \<bar>t\<bar> :: rat) < 2 ^ 45" by simp
  have "100 * (\<bar>q\<bar> / 2 ^ 53) = (100 * of_int \<bar>t\<bar> / 2 ^ 53) / of_nat n" unfolding aq by simp
  also have "\<dots> < (1 / 2) / of_nat n"
    using nn tb by (intro divide_strict_right_mono) simp_all
  finally have small: "100 * (\<bar>q\<bar> / 2 ^ 53) < 1 / (2 * of_nat n)" by simp
  have xq: "\<bar>x - q\<bar> \<le> \<bar>q\<bar> / 2 ^ 53" using x unfolding q_def .
  have close: "\<bar>x * 100 - of_int (100 * t) / of_nat n\<bar> < 1 / (2 * of_nat n)"
  proof -
    have "x * 100 - of_int (100 * t) / of_nat n = 100 * (x - q)" unfolding q_def by simp
    hence "\<bar>x * 100 - of_int (100 * t) / of_nat n\<bar> = \<bar>100 * (x - q)\<bar>" by (simp only:)
    also have "\<dots> = 100 * \<bar>x - q\<bar>" by (simp only: abs_mult)
    also have "\<dots> \<le> 100 * (\<bar>q\<bar> / 2 ^ 53)" using xq by simp
    finally show ?thesis using small by linarith
  qed
  have close': "\<bar>(- x) * 100 - of_int (100 * (- t)) / of_nat n\<bar> < 1 / (2 * of_nat n)"
  proof -
    have "(- x) * 100 - of_int (100 * (- t)) / of_nat n = - (x * 100 - of_int (100 * t) / of_nat n)"
      by simp
    thus ?thesis using close by (simp only: abs_minus)
  qed
  show ?thesis
  proof (cases "x < 0")
    case False
    have v: "toFixed2 x = of_int \<lfloor>x * 100 + 1 / 2\<rfloor> / 100" using False by (simp add: toFixed2_def)
    from grid_round [OF n close]
    have "\<bar>of_int \<lfloor>x * 100 + 1 / 2\<rfloor> - 100 * q\<bar> \<le> 1 / 2" unfolding q_def by simp
    hence "\<bar>of_int \<lfloor>x * 100 + 1 / 2\<rfloor> / 100 - q\<bar> \<le> 1 / 200" by linarith
    thus ?thesis unfolding v rounded2_def q_def by simp
  next
    case True
    have v: "toFixed2 x = - (of_int \<lfloor>(- x) * 100 + 1 / 2\<rfloor> / 100)" using True by (simp add: toFixed2_def)
    from grid_round [OF n close']
    have "\<bar>of_int \<lfloor>(- x) * 100 + 1 / 2\<rfloor> + 100 * q\<bar> \<le> 1 / 2" unfolding q_def by simp
    hence "\<bar>- (of_int \<lfloor>(- x) * 100 + 1 / 2\<rfloor> / 100) - q\<bar> \<le> 1 / 200" by linarith
    thus ?thesis unfolding v rounded2_def q_def by simp
  qed
qed

lemma exactly_summable_bounds:
  assumes "exactly_summable rs"
  shows "\<bar>totalRating rs\<bar> < 2 ^ 45" and "length rs < 2 ^ 53"
proof -
  have "\<bar>sum_list (map r_rating rs)\<bar> \<le> (\<Sum>r\<leftarrow>rs. \<bar>r_rating r\<bar>)"
    using sum_list_abs [of "map r_rating rs"] by (simp add: o_def)
  thus "\<bar>totalRating rs\<bar> < 2 ^ 45" using assms by (simp add: exactly_summable_def totalRating_sum)
  show "length rs < 2 ^ 53" using assms by (simp add: exactly_summable_def)
qed

lemma average_rounded:
  assumes b: "binary64_division rt" and s: "exactly_summable rs" and ne: "rs \<noteq> []"
  shows "rounded2 (mean_rating rs)
           (toFixed2 (fdiv rt (of_int (totalRating rs)) (of_nat (length rs))))"
proof -
  have n: "0 < length rs" using ne by simp
  have t: "\<bar>totalRating rs\<bar> < 2 ^ 45" and l: "length rs < 2 ^ 53"
    using exactly_summable_bounds [OF s] by blast+
  have "(2::int) ^ 45 < 2 ^ 53" by simp
  with t have t': "\<bar>totalRating rs\<bar> < 2 ^ 53" by linarith
  from b t' n l
  have "\<bar>fdiv rt (of_int (totalRating rs)) (of_nat (length rs)) -
           of_int (totalRating rs) / of_nat (length rs)\<bar>
         \<le> \<bar>of_int (totalRating rs) / of_nat (length rs)\<bar> / 2 ^ 53"
    unfolding binary64_division_def by blast
  from toFixed2_near [OF n t this] show ?thesis
    by (simp add: mean_rating_def totalRating_sum)
qed

lemma toFixed2_0 [simp]: "toFixed2 0 = 0"
  by (simp add: toFixed2_def floor_eq_iff)

lemma aggregate_in_stepI:
  assumes "leaders st' = map (\<lambda>l. if l_id l = leaderId then aggregate a (length rs) l else l) ls"
    and "leader_ratings st' leaderId = rs"
    and "rs = [] \<Longrightarrow> toFixed2 a = 0"
    and "rs \<noteq> [] \<Longrightarrow> rounded2 (mean_rating rs) (toFixed2 a)"
  shows "aggregate_in_step st' leaderId"
  unfolding aggregate_in_step_def assms(1,2)
  using assms(3,4) by auto

lemma binary64_division_exact: "binary64_division sample_runtime"
  by (simp add: binary64_division_def sample_runtime_def)

text \<open>
  C1, as amended. After a successful \<open>submitRatingAndComment\<close>, and after a
  \<open>deleteRating\<close>, in which the query that reads the leader's ratings back and the update
  of the leader's row report no error, every row of the leader has \<open>review_count\<close> equal to
  the number of ratings stored for the leader and \<open>rating\<close> equal to their mean rounded to
  two decimal places (0 when none is left).
\<close>

theorem aggregate_follows_ratings:
  assumes "binary64_division rt"
  shows "(submitRatingAndComment rt f st now leaderId userId newRating comment sb = (Inr res, st') \<longrightarrow>
            \<not> f 3 \<longrightarrow> \<not> f 4 \<longrightarrow> exactly_summable (leader_ratings st' leaderId) \<longrightarrow>
            aggregate_in_step st' leaderId) \<and>
         (deleteRating rt f st userId leaderId = (res', st'') \<longrightarrow>
            \<not> f 2 \<longrightarrow> \<not> f 3 \<longrightarrow> exactly_summable (leader_ratings st'' leaderId) \<longrightarrow>
            aggregate_in_step st'' leaderId)"
proof (intro conjI impI)
  assume R: "submitRatingAndComment rt f st now leaderId userId newRating comment sb = (Inr res, st')"
    and f3: "\<not> f 3" and f4: "\<not> f 4" and s: "exactly_summable (leader_ratings st' leaderId)"
  define rs where "rs = leader_ratings st' leaderId"
  from R have "\<not> isl (fst (submitRatingAndComment rt f st now leaderId userId newRating comment sb))"
    by simp
  hence f1: "\<not> f 1" by (simp add: submit_error)
  have st': "st' = snd (submitRatingAndComment rt f st now leaderId userId newRating comment sb)"
    using R by simp
  have "filter (\<lambda>r. r_userId r = userId \<and> r_leaderId r = leaderId) (ratings st') \<noteq> []"
    unfolding st' submit_ratings using f1 by (simp add: upsert_has)
  then obtain r where "r \<in> set (ratings st')" "r_leaderId r = leaderId"
    by (auto simp: filter_empty_conv)
  hence ne: "rs \<noteq> []" by (auto simp: rs_def leader_ratings_def filter_empty_conv)
  have ls: "leaders st' = map (\<lambda>l. if l_id l = leaderId
                  then aggregate (fdiv rt (of_int (totalRating rs)) (of_nat (length rs))) (length rs) l
                  else l) (leaders st)"
    using submit_leaders [OF f1 f3 f4, of rt st now leaderId userId newRating comment sb] ne
    unfolding st' [symmetric] rs_def [symmetric] by (simp add: Let_def)
  show "aggregate_in_step st' leaderId"
    by (rule aggregate_in_stepI [OF ls rs_def [symmetric]])
       (use ne average_rounded [OF assms] s in \<open>auto simp: rs_def\<close>)
next
  assume D: "deleteRating rt f st userId leaderId = (res', st'')"
    and f2: "\<not> f 2" and f3: "\<not> f 3" and s: "exactly_summable (leader_ratings st'' leaderId)"
  define rs where "rs = leader_ratings st'' leaderId"
  define a where "a = (if length rs > 0 then fdiv rt (of_int (totalRating rs)) (of_nat (length rs)) else 0)"
  have rs': "ratings st'' = snd (db_delete (f 0) (\<lambda>r. r_userId r = userId \<and> r_leaderId r = leaderId) (ratings st))"
    using D by (auto simp: deleteRating_def Let_def)
  have ls: "leaders st'' = map (\<lambda>l. if l_id l = leaderId then aggregate a (length rs) l else l) (leaders st)"
    using D f2 f3 unfolding a_def rs_def leader_ratings_def rs'
    by (auto simp: deleteRating_def Let_def db_select_def db_update_def)
  show "aggregate_in_step st'' leaderId"
    by (rule aggregate_in_stepI [OF ls rs_def [symmetric]])
       (use average_rounded [OF assms] s in \<open>auto simp: rs_def a_def\<close>)
qed

theorem aggregate_follows_ratings_witness:
  "binary64_division sample_runtime \<and>
   exactly_summable (leader_ratings (snd (submitRatingAndComment sample_runtime no_faults
      sample_store 1704153600000 ''L1'' ''u2'' 5 None None)) ''L1'') \<and>
   aggregate_in_step (snd (submitRatingAndComment sample_runtime no_faults sample_store
      1704153600000 ''L1'' ''u2'' 5 None None)) ''L1'' \<and>
   map (\<lambda>l. (l_rating l, l_review_count l))
     (leaders (snd (submitRatingAndComment sample_runtime no_faults sample_store 1704153600000
         ''L1'' ''u2'' 5 None None))) = [(9 / 2, 2)] \<and>
   exactly_summable (leader_ratings (snd (deleteRating sample_runtime no_faults sample_store
      ''u1'' ''L1'')) ''L1'') \<and>
   aggregate_in_step (snd (deleteRating sample_runtime no_faults sample_store ''u1'' ''L1'')) ''L1'' \<and>
   map (\<lambda>l. (l_rating l, l_review_count l))
     (leaders (snd (deleteRating sample_runtime no_faults sample_store ''u1'' ''L1''))) = [(0, 0)]"
proof -
  have s1: "exactly_summable (leader_ratings (snd (submitRatingAndComment sample_runtime no_faults
      sample_store 1704153600000 ''L1'' ''u2'' 5 None None)) ''L1'')"
    by (simp add: sample_defs run_defs leader_ratings_def exactly_summable_def)
  have s2: "exactly_summable (leader_ratings (snd (deleteRating sample_runtime no_faults sample_store
      ''u1'' ''L1'')) ''L1'')"
    by (simp add: sample_defs run_defs leader_ratings_def exactly_summable_def)
  have nf: "\<not> no_faults n" for n by (simp add: no_faults_def)
  note t = aggregate_follows_ratings [OF binary64_division_exact, where f = no_faults
      and st = sample_store and now = 1704153600000 and leaderId = "''L1''"
      and newRating = 5 and comment = None and sb = None]
  from t [where userId = "''u2''", THEN conjunct1, rule_format, OF submit_result [OF nf] nf nf s1]
  have a1: "aggregate_in_step (snd (submitRatingAndComment sample_runtime no_faults sample_store
      1704153600000 ''L1'' ''u2'' 5 None None)) ''L1''" .
  from t [where userId = "''u1''", THEN conjunct2, rule_format, OF deleteRating_result nf nf s2]
  have a2: "aggregate_in_step (snd (deleteRating sample_runtime no_faults sample_store ''u1'' ''L1'')) ''L1''" .
  have v1: "map (\<lambda>l. (l_rating l, l_review_count l))
     (leaders (snd (submitRatingAndComment sample_runtime no_faults sample_store 1704153600000
         ''L1'' ''u2'' 5 None None))) = [(9 / 2, 2)]"
    by (simp add: sample_defs run_defs)
  have v2: "map (\<lambda>l. (l_rating l, l_review_count l))
     (leaders (snd (deleteRating sample_runtime no_faults sample_store ''u1'' ''L1''))) = [(0, 0)]"
    by (simp add: sample_defs run_defs)
  show ?thesis using binary64_division_exact s1 s2 a1 a2 v1 v2 by simp
qed

text \<open>
  The claim as stated fails, for both operations. \<open>submitRatingAndComment\<close> only logs an
  error of the update of the leader's row: with that call failing it returns normally,
  two ratings 4 and 5 are stored, and the row still says rating 4, one review.
  \<open>deleteRating\<close> takes a failed read of the ratings for no ratings: deleting a rating
  that does not exist, with that read failing, writes rating 0 and no reviews while the
  rating 4 is still stored.
\<close>

theorem aggregate_out_of_step:
  "\<not> isl (fst (submitRatingAndComment sample_runtime (\<lambda>n. n = 4) sample_store 1704153600000
             ''L1'' ''u2'' 5 None None)) \<and>
   map r_rating (leader_ratings (snd (submitRatingAndComment sample_runtime (\<lambda>n. n = 4)
             sample_store 1704153600000 ''L1'' ''u2'' 5 None None)) ''L1'') = [4, 5] \<and>
   map (\<lambda>l. (l_rating l, l_review_count l))
     (leaders (snd (submitRatingAndComment sample_runtime (\<lambda>n. n = 4) sample_store 1704153600000
             ''L1'' ''u2'' 5 None None))) = [(4, 1)] \<and>
   \<not> aggregate_in_step (snd (submitRatingAndComment sample_runtime (\<lambda>n. n = 4) sample_store
             1704153600000 ''L1'' ''u2'' 5 None None)) ''L1'' \<and>
   map r_rating (leader_ratings (snd (deleteRating sample_runtime (\<lambda>n. n = 2) sample_store
             ''u9'' ''L1'')) ''L1'') = [4] \<and>
   map (\<lambda>l. (l_rating l, l_review_count l))
     (leaders (snd (deleteRating sample_runtime (\<lambda>n. n = 2) sample_store ''u9'' ''L1''))) = [(0, 0)] \<and>
   \<not> aggregate_in_step (snd (deleteRating sample_runtime (\<lambda>n. n = 2) sample_store ''u9'' ''L1''))
       ''L1''"
  by (simp add: sample_defs run_defs leader_ratings_def aggregate_in_step_def rounded2_def
      mean_rating_def)

subsection \<open>The clean-up in the ticket listing\<close>


lemma error_order_desc [simp]: "error (order_desc key r) = error r"
  by (simp add: order_desc_def)








subsection \<open>Passwords\<close>

lemma map_insort_key:
  assumes "\<And>x. k (g x) = k x"
  shows "map g (insort_key k x xs) = insort_key k (g x) (map g xs)"
  by (induction xs) (simp_all add: assms)

lemma map_sort_key:
  assumes "\<And>x. k (g x) = k x"
  shows "map g (sort_key k xs) = sort_key k (map g xs)"
  using assms by (induction xs) (simp_all add: map_insort_key)

lemma map_filter_invariant:
  assumes "\<And>x. P (g x) = P x"
  shows "map g (filter P xs) = filter P (map g xs)"
  by (induction xs) (simp_all add: assms)

lemma user_cells_password:
  "user_cells (u\<lparr>u_password := pw\<rparr>) = (user_cells u)(''password'' := Some (nullable Text pw))"
  by (rule ext) (simp add: user_cells_def)

lemma with_counts_password:
  "(with_counts st u)\<lparr>listed := (listed (with_counts st u))\<lparr>u_password := None\<rparr>\<rparr> =
   with_counts st (u\<lparr>u_password := None\<rparr>)"
  by (simp add: with_counts_def)

lemma with_counts_forget: "with_counts (forget_passwords st) = with_counts st"
  by (rule ext) (simp add: with_counts_def forget_passwords_def)

lemma getUsers_eq:
  "getUsers rt f st searchTerm =
     (case user_test rt searchTerm of
        None \<Rightarrow> []
      | Some test \<Rightarrow>
          if f 0 then []
          else map (\<lambda>user. user\<lparr>listed := (listed user)\<lparr>u_password := None\<rparr>\<rparr>)
                 (sort_key (\<lambda>row. - u_created_at (listed row))
                    (filter (\<lambda>row. test (user_cells (listed row)))
                       (map (with_counts st) (users st)))))"
  by (simp add: getUsers_def user_test_def select_or_def db_select_def order_desc_def
      rows_of_def Let_def split: option.splits)

lemma getUsers_forget:
  assumes "password_blind rt searchTerm"
  shows "getUsers rt f (forget_passwords st) searchTerm = getUsers rt f st searchTerm"
proof (cases "user_test rt searchTerm")
  case None
  thus ?thesis by (simp add: getUsers_eq)
next
  case (Some test)
  let ?s = "\<lambda>user. user\<lparr>listed := (listed user)\<lparr>u_password := None\<rparr>\<rparr>"
  let ?k = "\<lambda>row. - u_created_at (listed row)"
  let ?q = "\<lambda>row. test (user_cells (listed row))"
  from assms Some have blind: "\<And>row v. test (row(''password'' := v)) = test row"
    by (simp add: password_blind_def)
  have q: "?q (?s row) = ?q row" for row
    by (simp add: user_cells_password blind)
  have 1: "map ?s (sort_key ?k xs) = sort_key ?k (map ?s xs)" for xs
    by (rule map_sort_key) simp
  have 2: "map ?s (filter ?q xs) = filter ?q (map ?s xs)" for xs
    by (rule map_filter_invariant) (rule q)
  have 3: "map ?s (map ?s xs) = map ?s xs" for xs
    by simp
  have b: "map (with_counts st) (map (\<lambda>u. u\<lparr>u_password := None\<rparr>) (users st)) =
           map ?s (map (with_counts st) (users st))"
    by (simp add: with_counts_password)
  have "map ?s (sort_key ?k (filter ?q (map ?s (map (with_counts st) (users st))))) =
        map ?s (map ?s (sort_key ?k (filter ?q (map (with_counts st) (users st)))))"
    by (simp only: 1 2)
  also have "\<dots> = map ?s (sort_key ?k (filter ?q (map (with_counts st) (users st))))"
    by (rule 3)
  finally have c: "map ?s (sort_key ?k (filter ?q (map ?s (map (with_counts st) (users st))))) =
        map ?s (sort_key ?k (filter ?q (map (with_counts st) (users st))))" .
  have u: "users (forget_passwords st) = map (\<lambda>u. u\<lparr>u_password := None\<rparr>) (users st)"
    by (simp add: forget_passwords_def)
  show ?thesis
    unfolding getUsers_eq Some with_counts_forget u b using c by simp
qed

lemma findUserById_eq:
  "findUserById f st i =
     (if f 0 then None
      else (case filter (\<lambda>u. u_id u = i) (map (\<lambda>u. u\<lparr>u_password := None\<rparr>) (users st)) of
              [x] \<Rightarrow> Some x | _ \<Rightarrow> None))"
proof -
  have "filter (\<lambda>u. u_id u = i) (map (\<lambda>u. u\<lparr>u_password := None\<rparr>) (users st)) =
        map (\<lambda>u. u\<lparr>u_password := None\<rparr>) (filter (\<lambda>u. u_id u = i) (users st))"
    by (simp add: map_filter_invariant)
  thus ?thesis
    by (simp add: findUserById_def db_select_def single_def split: list.splits)
qed

lemma findUserById_forget: "findUserById f (forget_passwords st) i = findUserById f st i"
  by (simp add: findUserById_eq) (simp add: forget_passwords_def o_def)

lemma addUser_result:
  "fst (addUser rt f defaults st now user) =
     Inr (if f 0 then None else Some ((newUser rt defaults now user)\<lparr>u_password := None\<rparr>))"
  by (simp add: addUser_def db_insert_def)

lemma newUser_password:
  "(newUser rt defaults now (user\<lparr>nu_password := p\<rparr>))\<lparr>u_password := None\<rparr> =
   (newUser rt defaults now user)\<lparr>u_password := None\<rparr>"
  by (simp add: newUser_def Let_def split: option.splits)

lemma findUserByEmail_row:
  "findUserByEmail rt f st email = Some u \<Longrightarrow> u \<in> set (users st) \<and> u_email u = toLowerCase rt email"
proof -
  assume a: "findUserByEmail rt f st email = Some u"
  hence "filter (\<lambda>u. u_email u = toLowerCase rt email) (users st) = [u]"
    by (auto simp: findUserByEmail_def db_select_def single_def split: if_splits list.splits)
  hence "u \<in> set (filter (\<lambda>u. u_email u = toLowerCase rt email) (users st))" by simp
  thus ?thesis by simp
qed

lemma password_blind_None: "password_blind rt None"
  by (simp add: password_blind_def user_test_def)

text \<open>
  C10, as amended. No user that \<open>getUsers\<close>, \<open>findUserById\<close> or \<open>addUser\<close> returns has a
  password field. On two stores that differ only in the passwords stored,
  \<open>findUserById\<close> and \<open>addUser\<close> return the same (and \<open>addUser\<close> returns the same
  whatever password it is given), and so does \<open>getUsers\<close> without a search term, or for a
  search whose filter, as the store reads it, does not test the \<open>password\<close> column;
  \<open>findUserByEmail\<close> returns the row as it is stored, password included.
\<close>

theorem passwords_stripped:
  "(\<forall>u \<in> set (getUsers rt f st searchTerm). u_password (listed u) = None) \<and>
   (\<forall>u. findUserById f st i = Some u \<longrightarrow> u_password u = None) \<and>
   (\<forall>u. fst (addUser rt f defaults st now user) = Inr (Some u) \<longrightarrow> u_password u = None) \<and>
   (forget_passwords st = forget_passwords st' \<longrightarrow>
      (password_blind rt searchTerm \<longrightarrow>
         getUsers rt f st searchTerm = getUsers rt f st' searchTerm) \<and>
      findUserById f st i = findUserById f st' i \<and>
      fst (addUser rt f defaults st now user) = fst (addUser rt f defaults st' now user)) \<and>
   password_blind rt None \<and>
   fst (addUser rt f defaults st now (user\<lparr>nu_password := p\<rparr>)) =
     fst (addUser rt f defaults st now user) \<and>
   (\<forall>u. findUserByEmail rt f st email = Some u \<longrightarrow>
      u \<in> set (users st) \<and> u_email u = toLowerCase rt email)"
proof -
  have a: "\<forall>u \<in> set (getUsers rt f st searchTerm). u_password (listed u) = None"
    by (auto simp: getUsers_def Let_def)
  have b: "\<forall>u. findUserById f st i = Some u \<longrightarrow> u_password u = None"
    by (auto simp: findUserById_def Let_def split: option.splits if_splits)
  have c: "\<forall>u. fst (addUser rt f defaults st now user) = Inr (Some u) \<longrightarrow> u_password u = None"
    by (auto simp: addUser_result)
  have d1: "getUsers rt f st searchTerm = getUsers rt f st' searchTerm"
    if "forget_passwords st = forget_passwords st'" and "password_blind rt searchTerm"
    using that getUsers_forget [of rt searchTerm f st] getUsers_forget [of rt searchTerm f st']
    by simp
  have d2: "findUserById f st i = findUserById f st' i \<and>
      fst (addUser rt f defaults st now user) = fst (addUser rt f defaults st' now user)"
    if "forget_passwords st = forget_passwords st'"
    using that findUserById_forget [of f st i] findUserById_forget [of f st' i]
    by (simp add: addUser_result)
  have e: "fst (addUser rt f defaults st now (user\<lparr>nu_password := p\<rparr>)) =
     fst (addUser rt f defaults st now user)"
    by (simp add: addUser_result newUser_password)
  show ?thesis using a b c d1 d2 e password_blind_None findUserByEmail_row by blast
qed

theorem passwords_stripped_witness:
  "forget_passwords sample_store =
     forget_passwords (sample_store\<lparr>users := [sample_user\<lparr>u_password := Some ''correct horse''\<rparr>]\<rparr>) \<and>
   password_blind sample_runtime (Some ''mira'') \<and>
   map (\<lambda>u. (u_id (listed u), u_password (listed u)))
     (getUsers sample_runtime no_faults sample_store (Some ''mira'')) = [(''u1'', None)] \<and>
   getUsers sample_runtime no_faults sample_store (Some ''mira'') =
     getUsers sample_runtime no_faults
       (sample_store\<lparr>users := [sample_user\<lparr>u_password := Some ''correct horse''\<rparr>]\<rparr>)
       (Some ''mira'') \<and>
   map_option u_password (findUserById no_faults sample_store ''u1'') = Some None \<and>
   map_option u_password (findUserByEmail sample_runtime no_faults sample_store ''mira@example.org'') =
     Some (Some ''hunter2'') \<and>
   map_option u_password
     (projr (fst (addUser sample_runtime no_faults sample_user sample_store 1704153600000
        \<lparr>nu_email = ''Ravi@Example.org'', nu_password = Some ''s3cret'', nu_name = None\<rparr>))) =
     Some None"
proof -
  let ?st' = "sample_store\<lparr>users := [sample_user\<lparr>u_password := Some ''correct horse''\<rparr>]\<rparr>"
  have eq: "forget_passwords sample_store = forget_passwords ?st'"
    by (simp add: forget_passwords_def sample_defs)
  have blind: "password_blind sample_runtime (Some ''mira'')"
    by (simp add: password_blind_def user_test_def user_search_def sample_search_defs
        sample_runtime_def)
  note t = passwords_stripped [where rt = sample_runtime and f = no_faults and st = sample_store
      and st' = ?st' and searchTerm = "Some ''mira''" and i = "''u1''"
      and email = "''mira@example.org''" and defaults = sample_user and now = 1704153600000 
      and user = "\<lparr>nu_email = ''Ravi@Example.org'', nu_password = Some ''s3cret'', nu_name = None\<rparr>"]
  from t eq blind have same: "getUsers sample_runtime no_faults sample_store (Some ''mira'') =
       getUsers sample_runtime no_faults ?st' (Some ''mira'')" by blast
  have listing: "map (\<lambda>u. (u_id (listed u), u_password (listed u)))
       (getUsers sample_runtime no_faults sample_store (Some ''mira'')) = [(''u1'', None)]"
    by (simp add: getUsers_eq user_test_def user_search_def sample_search_defs user_cells_def
        nullable_def with_counts_def sample_defs)
  have rest: "map_option u_password (findUserById no_faults sample_store ''u1'') = Some None \<and>
     map_option u_password (findUserByEmail sample_runtime no_faults sample_store ''mira@example.org'') =
       Some (Some ''hunter2'') \<and>
     map_option u_password
       (projr (fst (addUser sample_runtime no_faults sample_user sample_store 1704153600000
          \<lparr>nu_email = ''Ravi@Example.org'', nu_password = Some ''s3cret'', nu_name = None\<rparr>))) =
       Some None"
    by (simp add: findUserById_def findUserByEmail_def addUser_def newUser_def
        db_select_def db_insert_def single_def Let_def sample_defs)
  show ?thesis using eq blind same listing rest by simp
qed

text \<open>
  The claim as stated fails for \<open>getUsers\<close>: the search term is pasted into the filter as
  it comes, and a comma in it starts a condition of its own. The term here adds a
  condition on the \<open>password\<close> column, so the listing tells whether a password starts
  with \<open>hunter2\<close>: the two stores differ only in the password of \<open>u1\<close>, and \<open>u1\<close> is
  listed from one and not from the other.
\<close>

theorem search_can_test_passwords:
  "forget_passwords sample_store =
     forget_passwords (sample_store\<lparr>users := [sample_user\<lparr>u_password := Some ''correct horse''\<rparr>]\<rparr>) \<and>
   user_search ''zz,password.like.hunter2'' =
     ''name.ilike.%zz,password.like.hunter2%,'' @ ''email.ilike.%zz,password.like.hunter2%,'' @
     ''id.ilike.%zz,password.like.hunter2%'' \<and>
   map (\<lambda>u. (u_id (listed u), u_password (listed u)))
     (getUsers sample_runtime no_faults sample_store (Some ''zz,password.like.hunter2'')) =
     [(''u1'', None)] \<and>
   getUsers sample_runtime no_faults
     (sample_store\<lparr>users := [sample_user\<lparr>u_password := Some ''correct horse''\<rparr>]\<rparr>)
     (Some ''zz,password.like.hunter2'') = []"
  by (simp add: forget_passwords_def getUsers_eq user_test_def user_search_def
      sample_search_defs user_cells_def nullable_def with_counts_def sample_defs)

subsection \<open>Poll percentages\<close>

lemma map_of_overwrite:
  "map_of (map (\<lambda>entry. if fst entry = k then (k, v) else entry) obj) i =
     (if i = k then map_option (\<lambda>w. v) (map_of obj k) else map_of obj i)"
  by (induction obj) auto

lemma map_of_put:
  "map_of (put obj k v) i = (if i = k \<and> k \<noteq> ''__proto__'' then Some v else map_of obj i)"
  by (auto simp: put_def map_of_overwrite map_add_def split: option.splits)

lemma plain_not_proto: "i \<notin> set Object_prototype \<Longrightarrow> i \<noteq> ''__proto__''"
  by (auto simp: Object_prototype_def)

lemma get_or_0_bump:
  assumes "i \<notin> set Object_prototype"
  shows "get_or_0 (bump k obj) i = (if k = i then plus_1 (get_or_0 obj i) else get_or_0 obj i)"
  using assms plain_not_proto [OF assms] by (auto simp: bump_def get_or_0_def map_of_put)

lemma count_answers_fold:
  "i \<notin> set Object_prototype \<Longrightarrow> get_or_0 m i = Count c \<Longrightarrow>
   get_or_0 (fold tally answers m) i =
     Count (c + length (filter (\<lambda>a. a_selected_option_id a = i) answers))"
proof (induction answers arbitrary: m c)
  case Nil
  thus ?case by simp
next
  case (Cons a answers)
  have "get_or_0 (tally a m) i = Count (if a_selected_option_id a = i then c + 1 else c)"
    using Cons.prems by (simp add: tally_def get_or_0_bump plus_1_def)
  from Cons.IH [OF Cons.prems(1) this] show ?case by simp
qed

lemma count_answers_selections:
  "i \<notin> set Object_prototype \<Longrightarrow>
   get_or_0 (count_answers (poll_answers q)) i = Count (selections q i)"
  using count_answers_fold [of i "[]" 0 "poll_answers q"]
  by (simp add: count_answers_def selections_def get_or_0_def)

lemma selections_le: "selections q i \<le> length (poll_answers q)"
  by (simp add: selections_def)

lemma question_result_options:
  assumes "plain_ids q"
  shows "options (question_result rt i q) =
     map (\<lambda>opt. \<lparr>optionId = o_id opt, optionText = o_option_text opt,
                  count = Count (selections q (o_id opt)),
                  percentage =
                    Some (percentage_of rt (selections q (o_id opt)) (length (poll_answers q)))\<rparr>)
       (poll_options q)"
proof -
  have "o_id opt \<notin> set Object_prototype" if "opt \<in> set (poll_options q)" for opt
    using assms that by (simp add: plain_ids_def list_all_iff)
  thus ?thesis
    by (simp add: question_result_def Let_def count_answers_selections percentage_of_def
        percent_def)
qed

lemma those_map_Some: "those (map (\<lambda>x. Some (g x)) xs) = Some (map g xs)"
  by (induction xs) simp_all

lemma Math_round_0 [simp]: "Math_round 0 = 0"
  by (simp add: Math_round_def floor_eq_iff)

lemma percentage_near:
  assumes d: "binary64_division rt" and m: "binary64_times_100 rt"
    and ct: "c \<le> t" and t0: "0 < t" and tb: "t < 2 ^ 40"
  shows "nearest_integer (of_nat c / of_nat t * 100) (percentage_of rt c t)"
proof -
  define q :: rat where "q = of_nat c / of_nat t"
  define x where "x = fdiv rt (of_nat c) (of_nat t)"
  define y where "y = fmul rt x 100"
  have tt: "(0::rat) < of_nat t" using t0 by simp
  have q0: "0 \<le> q" unfolding q_def by simp
  have q1: "q \<le> 1" unfolding q_def using ct tt by (simp add: divide_le_eq_1)
  have "(2::nat) ^ 40 < 2 ^ 53" by simp
  with tb have tb': "t < 2 ^ 53" by linarith
  have "c < 2 ^ 53" using ct tb' by linarith
  hence "int c < int (2 ^ 53)" by (simp only: of_nat_less_iff)
  hence cb: "\<bar>int c\<bar> < 2 ^ 53" by simp
  from d cb t0 tb'
  have "\<bar>fdiv rt (of_int (int c)) (of_nat t) - of_int (int c) / of_nat t\<bar>
          \<le> \<bar>of_int (int c) / of_nat t\<bar> / 2 ^ 53"
    unfolding binary64_division_def by blast
  hence xq: "\<bar>x - q\<bar> \<le> q / 2 ^ 53" unfolding x_def q_def by simp
  have p: "percentage_of rt c t = \<lfloor>y + 1 / 2\<rfloor>"
    using t0 by (simp add: percentage_of_def Math_round_def y_def x_def)
  have near: "\<bar>y - of_int (100 * int c) / of_nat t\<bar> < 1 / (2 * of_nat t)"
  proof (cases "c = 0")
    case True
    hence "q = 0" by (simp add: q_def)
    with xq have "x = 0" by simp
    with m have "\<bar>fmul rt 0 100 - 0 * 100\<bar> \<le> 0 * 100 / 2 ^ 53"
      unfolding binary64_times_100_def by blast
    hence "y = 0" unfolding y_def \<open>x = 0\<close> by simp
    thus ?thesis using True tt by simp
  next
    case False
    hence "(1::rat) \<le> of_nat c" by (simp add: Suc_le_eq)
    hence ql: "1 / of_nat t \<le> q" unfolding q_def using tt by (simp add: divide_right_mono)
    have "(of_nat t :: rat) < of_nat (2 ^ 40)" using tb by (simp only: of_nat_less_iff)
    hence tr: "(of_nat t :: rat) < 2 ^ 40" by simp
    hence "1 / (2 ^ 40 :: rat) < 1 / of_nat t" using tt by (simp add: divide_strict_left_mono)
    with ql have qg: "1 / 2 ^ 40 < q" by linarith
    have "q / 2 ^ 53 \<le> q / 2" using q0 by (simp add: divide_left_mono)
    with xq have "q / 2 \<le> x" by linarith
    with qg have xl: "1 / 2 ^ 53 \<le> x" by simp
    have "q / 2 ^ 53 \<le> 1" using q1 q0 by (simp add: divide_le_eq)
    with xq q1 have xu: "x \<le> 2" by linarith
    from m xl xu have yx: "\<bar>y - x * 100\<bar> \<le> x * 100 / 2 ^ 53"
      unfolding binary64_times_100_def y_def by blast
    have "x * 100 / 2 ^ 53 \<le> 200 / 2 ^ 53" using xu by simp
    moreover have "100 * (q / 2 ^ 53) \<le> 100 / 2 ^ 53" using q1 by simp
    moreover have "\<bar>y - q * 100\<bar> \<le> \<bar>y - x * 100\<bar> + 100 * \<bar>x - q\<bar>"
    proof -
      have "x * 100 - q * 100 = 100 * (x - q)" by simp
      hence "\<bar>x * 100 - q * 100\<bar> = \<bar>100 * (x - q)\<bar>" by (simp only:)
      also have "\<dots> = 100 * \<bar>x - q\<bar>" by (simp only: abs_mult)
      finally have "\<bar>x * 100 - q * 100\<bar> = 100 * \<bar>x - q\<bar>" .
      thus ?thesis by linarith
    qed
    ultimately have "\<bar>y - q * 100\<bar> \<le> 300 / 2 ^ 53" using yx xq by linarith
    moreover have "(300 / 2 ^ 53 :: rat) < 1 / 2 ^ 41" by simp
    moreover have "1 / (2 ^ 41 :: rat) < 1 / (2 * of_nat t)"
      using tr tt by (simp add: divide_strict_left_mono)
    ultimately have "\<bar>y - q * 100\<bar> < 1 / (2 * of_nat t)" by linarith
    moreover have "of_int (100 * int c) / of_nat t = q * 100" by (simp add: q_def)
    ultimately show ?thesis by simp
  qed
  have "of_int (100 * int c) / of_nat t = q * 100" by (simp add: q_def)
  with grid_round [OF t0 near]
  have "\<bar>of_int \<lfloor>y + 1 / 2\<rfloor> - q * 100\<bar> \<le> 1 / 2" by (simp only:)
  thus ?thesis unfolding nearest_integer_def p q_def .
qed

lemma length_filter_disj:
  "(\<And>a. \<not> (P a \<and> Q a)) \<Longrightarrow>
   length (filter (\<lambda>a. P a \<or> Q a) xs) = length (filter P xs) + length (filter Q xs)"
  by (induction xs) auto

lemma selections_sum:
  "distinct ids \<Longrightarrow>
   (\<Sum>i\<leftarrow>ids. selections q i) =
     length (filter (\<lambda>a. a_selected_option_id a \<in> set ids) (poll_answers q))"
proof (induction ids)
  case Nil
  show ?case by simp
next
  case (Cons i ids)
  have "length (filter (\<lambda>a. a_selected_option_id a = i \<or> a_selected_option_id a \<in> set ids)
           (poll_answers q)) =
        selections q i + length (filter (\<lambda>a. a_selected_option_id a \<in> set ids) (poll_answers q))"
    unfolding selections_def using Cons.prems by (intro length_filter_disj) auto
  thus ?case using Cons by simp
qed

lemma sum_list_close:
  fixes f g :: "'a \<Rightarrow> rat"
  shows "(\<And>x. x \<in> set xs \<Longrightarrow> \<bar>f x - g x\<bar> \<le> 1 / 2) \<Longrightarrow>
   \<bar>(\<Sum>x\<leftarrow>xs. f x) - (\<Sum>x\<leftarrow>xs. g x)\<bar> \<le> of_nat (length xs) / 2"
proof (induction xs)
  case Nil
  show ?case by simp
next
  case (Cons x xs)
  have "\<bar>f x - g x\<bar> \<le> 1 / 2" using Cons.prems by simp
  moreover have "\<bar>(\<Sum>x\<leftarrow>xs. f x) - (\<Sum>x\<leftarrow>xs. g x)\<bar> \<le> of_nat (length xs) / 2"
    using Cons by simp
  moreover have "\<bar>(f x + (\<Sum>x\<leftarrow>xs. f x)) - (g x + (\<Sum>x\<leftarrow>xs. g x))\<bar>
      \<le> \<bar>f x - g x\<bar> + \<bar>(\<Sum>x\<leftarrow>xs. f x) - (\<Sum>x\<leftarrow>xs. g x)\<bar>" by linarith
  ultimately have "\<bar>(f x + (\<Sum>x\<leftarrow>xs. f x)) - (g x + (\<Sum>x\<leftarrow>xs. g x))\<bar>
      \<le> 1 / 2 + of_nat (length xs) / 2" by linarith
  also have "\<dots> = of_nat (length (x # xs)) / 2" by (simp add: field_simps)
  finally show ?case by simp
qed

lemma sum_list_scaled:
  fixes h :: "'a \<Rightarrow> nat" and c :: rat
  shows "(\<Sum>x\<leftarrow>xs. of_nat (h x) / c * 100) = of_nat (\<Sum>x\<leftarrow>xs. h x) / c * 100"
  by (induction xs) (simp_all add: add_divide_distrib distrib_right)

lemma binary64_times_100_exact: "binary64_times_100 sample_runtime"
  by (auto simp: binary64_times_100_def sample_runtime_def)

lemma question_result_reports:
  assumes d: "binary64_division rt" and m: "binary64_times_100 rt"
    and b: "length (poll_answers q) < 2 ^ 40" and plain: "plain_ids q"
  shows "reports_question q (question_result rt i q)"
proof -
  let ?t = "length (poll_answers q)"
  let ?p = "\<lambda>opt::poll_option_row. percentage_of rt (selections q (o_id opt)) ?t"
  let ?res = "\<lambda>opt::poll_option_row. \<lparr>optionId = o_id opt, optionText = o_option_text opt,
                  count = Count (selections q (o_id opt)), percentage = Some (?p opt)\<rparr>"
  note opts = question_result_options [OF plain, of rt i]
  have each: "reports_option q opt (?res opt)" for opt :: poll_option_row
  proof (cases "poll_answers q = []")
    case True
    thus ?thesis by (simp add: reports_option_def percentage_of_def)
  next
    case False
    hence "0 < ?t" by simp
    from percentage_near [OF d m selections_le this b, of "o_id opt"] False
    show ?thesis by (simp add: reports_option_def)
  qed
  have all: "list_all2 (reports_option q) (poll_options q) (options (question_result rt i q))"
    unfolding opts by (simp add: list_all2_map2 each list.rel_refl)
  have ps: "those (map percentage (options (question_result rt i q))) =
      Some (map ?p (poll_options q))"
    unfolding opts by (simp add: o_def those_map_Some)
  have total: "\<bar>(\<Sum>p\<leftarrow>map ?p (poll_options q). of_int p) - 100\<bar>
        \<le> (of_nat (length (map ?p (poll_options q))) / 2 :: rat)"
    if w: "well_answered q"
  proof -
    from w have ne: "poll_answers q \<noteq> []" and di: "distinct (map o_id (poll_options q))"
      and inn: "\<forall>a \<in> set (poll_answers q). a_selected_option_id a \<in> o_id ` set (poll_options q)"
      by (simp_all add: well_answered_def)
    have t0: "(0::rat) < of_nat ?t" using ne by simp
    let ?f = "\<lambda>opt::poll_option_row. (of_int (?p opt) :: rat)"
    let ?g = "\<lambda>opt::poll_option_row. (of_nat (selections q (o_id opt)) / of_nat ?t * 100 :: rat)"
    have near: "\<bar>?f opt - ?g opt\<bar> \<le> 1 / 2" for opt :: poll_option_row
      using each [of opt] ne by (simp add: reports_option_def nearest_integer_def)
    have "filter (\<lambda>a. a_selected_option_id a \<in> set (map o_id (poll_options q))) (poll_answers q) =
          poll_answers q" using inn by (simp add: filter_id_conv)
    with selections_sum [OF di, of q]
    have s: "(\<Sum>i\<leftarrow>map o_id (poll_options q). selections q i) = ?t" by simp
    have "(\<Sum>opt\<leftarrow>poll_options q. ?g opt) =
          of_nat (\<Sum>opt\<leftarrow>poll_options q. selections q (o_id opt)) / of_nat ?t * 100"
      by (rule sum_list_scaled)
    also have "(\<Sum>opt\<leftarrow>poll_options q. selections q (o_id opt)) = ?t"
      using s by (simp add: o_def)
    finally have g: "(\<Sum>opt\<leftarrow>poll_options q. ?g opt) = 100" using t0 by simp
    have "\<bar>(\<Sum>opt\<leftarrow>poll_options q. ?f opt) - (\<Sum>opt\<leftarrow>poll_options q. ?g opt)\<bar>
          \<le> of_nat (length (poll_options q)) / 2"
      by (rule sum_list_close) (rule near)
    thus ?thesis unfolding g by (simp add: o_def)
  qed
  show ?thesis
    unfolding reports_question_def ps using all total
    by (simp add: question_result_def Let_def)
qed

lemmas poll_defs = getPollResults_def question_result_def count_answers_def tally_def
  bump_def put_def get_or_0_def plus_1_def percent_def Object_prototype_def
  Math_round_def sample_poll_def sample_question_def sample_option_def sample_answer_def
  sample_runtime_def Let_def floor_eq_iff

text \<open>
  C2, as amended. For every poll and every question in the result of \<open>getPollResults\<close>,
  each option's percentage is the count of answers selecting that option divided by the
  question's total answer count, times 100, rounded to a nearest integer (and 0 when the
  total is 0), provided that no option's id is the name of a member that every
  JavaScript object inherits, such as \<open>constructor\<close> or \<open>toString\<close>; and across the
  options of one question whose answers each select one of its options, the option ids
  being distinct, these percentages sum to 100 within half a point per option whenever
  the total is not zero.
\<close>

theorem poll_percentages:
  assumes "binary64_division rt" and "binary64_times_100 rt"
    and "data r = Some poll"
    and "\<forall>q \<in> set (poll_questions poll). length (poll_answers q) < 2 ^ 40"
    and "\<forall>q \<in> set (poll_questions poll). plain_ids q"
  shows "list_all2 reports_question (poll_questions poll) (getPollResults rt r i)"
  using assms question_result_reports
  by (simp add: getPollResults_def list_all2_map2 list.rel_refl_strong)

theorem poll_percentages_witness:
  "binary64_division sample_runtime \<and> binary64_times_100 sample_runtime \<and>
   plain_ids (sample_question ''q1'' ''single-choice''
        [sample_option ''o1'', sample_option ''o2'', sample_option ''o3'']
        [sample_answer ''a1'' ''o1'', sample_answer ''a2'' ''o2'', sample_answer ''a3'' ''o3'']) \<and>
   list_all2 reports_question
     [sample_question ''q1'' ''single-choice''
        [sample_option ''o1'', sample_option ''o2'', sample_option ''o3'']
        [sample_answer ''a1'' ''o1'', sample_answer ''a2'' ''o2'', sample_answer ''a3'' ''o3'']]
     (getPollResults sample_runtime
        (Reply (Some (sample_poll
           [sample_question ''q1'' ''single-choice''
              [sample_option ''o1'', sample_option ''o2'', sample_option ''o3'']
              [sample_answer ''a1'' ''o1'', sample_answer ''a2'' ''o2'',
               sample_answer ''a3'' ''o3'']])) False) ''p1'') \<and>
   map (\<lambda>res. map (\<lambda>x. (count x, percentage x)) (options res))
     (getPollResults sample_runtime
        (Reply (Some (sample_poll
           [sample_question ''q1'' ''single-choice''
              [sample_option ''o1'', sample_option ''o2'', sample_option ''o3'']
              [sample_answer ''a1'' ''o1'', sample_answer ''a2'' ''o2'',
               sample_answer ''a3'' ''o3'']])) False) ''p1'') =
     [[(Count 1, Some 33), (Count 1, Some 33), (Count 1, Some 33)]]"
proof -
  let ?q = "sample_question ''q1'' ''single-choice''
        [sample_option ''o1'', sample_option ''o2'', sample_option ''o3'']
        [sample_answer ''a1'' ''o1'', sample_answer ''a2'' ''o2'', sample_answer ''a3'' ''o3'']"
  have b: "\<forall>q \<in> set (poll_questions (sample_poll [?q])). length (poll_answers q) < 2 ^ 40"
    by (simp add: sample_poll_def sample_question_def)
  have pl: "plain_ids ?q"
    by (simp add: plain_ids_def sample_question_def sample_option_def Object_prototype_def)
  have p: "poll_questions (sample_poll [?q]) = [?q]" by (simp add: sample_poll_def)
  have pls: "\<forall>q \<in> set (poll_questions (sample_poll [?q])). plain_ids q"
    unfolding p using pl by simp
  from poll_percentages [OF binary64_division_exact binary64_times_100_exact _ b pls,
      of "Reply (Some (sample_poll [?q])) False" "''p1''"]
  have r: "list_all2 reports_question [?q]
     (getPollResults sample_runtime (Reply (Some (sample_poll [?q])) False) ''p1'')"
    unfolding p by simp
  have v: "map (\<lambda>res. map (\<lambda>x. (count x, percentage x)) (options res))
     (getPollResults sample_runtime (Reply (Some (sample_poll [?q])) False) ''p1'') =
     [[(Count 1, Some 33), (Count 1, Some 33), (Count 1, Some 33)]]"
    by (simp add: poll_defs)
  show ?thesis using binary64_division_exact binary64_times_100_exact pl r v by simp
qed

text \<open>
  The claim as stated fails. The answers of a question need not select its options: a
  text question has no options, and an answer may name an option that is not among the
  question's; the first two questions here have one answer each, and their percentages
  add up to 0. And \<open>optionCounts\<close> is a plain object: under an option id that names an
  inherited member, here \<open>constructor\<close>, which no answer selects, it holds that member,
  so the count of the option is a function and its percentage is \<open>NaN\<close>.
\<close>

theorem percentages_need_not_sum_to_100:
  "map (\<lambda>res. (totalResponses res, map (\<lambda>x. (count x, percentage x)) (options res)))
     (getPollResults sample_runtime
        (Reply (Some (sample_poll
           [sample_question ''q1'' ''text'' [] [sample_answer ''a1'' ''free text''],
            sample_question ''q2'' ''single-choice''
              [sample_option ''o1'', sample_option ''o2''] [sample_answer ''a2'' ''o9''],
            sample_question ''q3'' ''single-choice''
              [sample_option ''constructor'', sample_option ''o2''] [sample_answer ''a3'' ''o2'']]))
           False) ''p1'') =
     [(1, []), (1, [(Count 0, Some 0), (Count 0, Some 0)]),
      (1, [(Member ''constructor'', None), (Count 1, Some 100)])]"
  by (simp add: poll_defs)


subsection \<open>Failed writes\<close>

lemma upsert_each_fails:
  "i < length updates \<Longrightarrow> fails (k + i) \<Longrightarrow> (\<forall>j < i. \<not> fails (k + j)) \<Longrightarrow>
   upsert_each fails k updates = Inl (Error (''Failed to update setting: '' @ fst (updates ! i)))"
proof (induction updates arbitrary: i k)
  case Nil
  thus ?case by simp
next
  case (Cons u us)
  show ?case
  proof (cases i)
    case 0
    with Cons.prems show ?thesis by simp
  next
    case (Suc n)
    with Cons.prems have n: "n < length us" and fn: "fails (Suc k + n)"
      and before: "\<forall>j < n. \<not> fails (Suc k + j)" and k: "\<not> fails k"
      by (auto dest: spec [of _ "Suc _"] spec [of _ 0])
    from Cons.IH [OF n fn before] k Suc show ?thesis by simp
  qed
qed

lemma upsert_each_ok:
  "(\<forall>j < length updates. \<not> fails (k + j)) \<Longrightarrow> upsert_each fails k updates = Inr ()"
proof (induction updates arbitrary: k)
  case Nil
  show ?case by simp
next
  case (Cons u us)
  from Cons.prems have k: "\<not> fails k" and rest: "\<forall>j < length us. \<not> fails (Suc k + j)"
    by (auto dest: spec [of _ "Suc _"] spec [of _ 0])
  from Cons.IH [OF rest] k show ?case by simp
qed

lemma updateSettings_fails:
  assumes "i < length settings" and "fails i" and "\<forall>j < i. \<not> fails j"
  shows "updateSettings fails settings =
           Inl (Error (''Failed to update setting: '' @ fst (settings ! i)))"
  using upsert_each_fails [of i "map (\<lambda>entry. (fst entry, or_null (snd entry))) settings" fails 0]
    assms by (simp add: updateSettings_def)

lemma insert_questions_message:
  "insert_questions qf opf i qs = Inl e \<Longrightarrow>
   e = Error ''Failed to create poll question'' \<or> e = Error ''Failed to create poll options''"
  by (induction qs arbitrary: i) (auto split: if_splits)

lemma insert_questions_fails:
  "n < length qs \<Longrightarrow> qf (i + n) \<or> (poll_options (qs ! n) \<noteq> [] \<and> opf (i + n)) \<Longrightarrow>
   isl (insert_questions qf opf i qs)"
proof (induction qs arbitrary: i n)
  case Nil
  thus ?case by simp
next
  case (Cons q qs)
  show ?case
  proof (cases n)
    case 0
    with Cons.prems show ?thesis by auto
  next
    case (Suc m)
    with Cons.prems have "m < length qs"
      and "qf (Suc i + m) \<or> (poll_options (qs ! m) \<noteq> [] \<and> opf (Suc i + m))" by auto
    from Cons.IH [OF this] show ?thesis by simp
  qed
qed

lemma createPoll_fails:
  assumes "n < length (poll_questions pollData)"
    and "question_fails n \<or> (poll_options (poll_questions pollData ! n) \<noteq> [] \<and> options_fail n)"
  shows "createPoll rt poll_fails question_fails options_fail now pollData \<in>
           {Inl (Error ''Failed to create poll''), Inl (Error ''Failed to create poll question''),
            Inl (Error ''Failed to create poll options'')}"
proof -
  from insert_questions_fails [of n "poll_questions pollData" question_fails 0 options_fail] assms
  obtain e where e: "insert_questions question_fails options_fail 0 (poll_questions pollData) = Inl e"
    by (cases "insert_questions question_fails options_fail 0 (poll_questions pollData)") auto
  from insert_questions_message [OF e] e show ?thesis by (auto simp: createPoll_def)
qed

lemma addLeader_error:
  "f 0 \<longrightarrow> fst (addLeader rt f st now leaderData userId) = Inl (Error ''Failed to add leader'')"
  by (simp add: addLeader_def db_insert_def)

lemma updateLeader_error:
  "f 1 \<longrightarrow>
   (\<exists>l. getLeaderById (calls_from 0 f) st leaderId = Some l \<and> (isAdmin \<or> addedByUserId l = userId)) \<longrightarrow>
   fst (updateLeader f st leaderId leaderData userId isAdmin) = Inl (Error ''Failed to update leader'')"
  by (auto simp: updateLeader_cases)

lemma submit_rating_error:
  "f 1 \<longrightarrow>
   fst (submitRatingAndComment rt f st now leaderId uid newRating comment sb) =
     Inl (Error ''Failed to submit rating'')"
  by (simp add: submitRatingAndComment_def Let_def case_prod_beta)

lemma submit_other_errors:
  "\<not> f 1 \<longrightarrow> \<not> isl (fst (submitRatingAndComment rt f st now leaderId uid newRating comment sb))"
  by (simp add: submit_error)

lemma approveLeader_error:
  "f 0 \<longrightarrow> fst (approveLeader f st leaderId) = Inl (Error ''Failed to approve leader'')"
  by (simp add: approveLeader_def db_update_def)

lemma updateLeaderStatus_error:
  "f 0 \<longrightarrow>
   fst (updateLeaderStatus f st leaderId newStatus adminComment') =
     Inl (Error ''Failed to update leader status'')"
  by (simp add: updateLeaderStatus_def db_update_def)

lemma deleteLeader_error:
  "fst (deleteLeader f st leaderId) =
     (if f 2 then Inl (Error ''Failed to delete leader'') else Inr ())"
  by (simp add: deleteLeader_def db_delete_def Let_def)

lemma deleteRating_no_error: "fst (deleteRating rt f st uid leaderId) = Inr ()"
  by (simp add: deleteRating_def Let_def)

lemma updateSettings_error:
  "i < length settings \<longrightarrow> fails i \<longrightarrow> (\<forall>j < i. \<not> fails j) \<longrightarrow>
   updateSettings fails settings =
     Inl (Error (''Failed to update setting: '' @ fst (settings ! i)))"
  using updateSettings_fails by blast

lemma updateSiteSettings_error:
  "err \<longrightarrow>
   updateSiteSettings err = Inl (Error ''Database transaction for updating settings failed.'')"
  by (simp add: updateSiteSettings_def)

lemma addNotification_error:
  "err \<longrightarrow> addNotification rt err now payload = Inl (Error ''Failed to add notification'')"
  by (simp add: addNotification_def)

lemma updateNotification_error:
  "err \<longrightarrow> updateNotification err updated = Inl (Error ''Failed to update notification'')"
  by (simp add: updateNotification_def)

lemma updateNotification_fetch_error:
  "\<not> err \<longrightarrow> error updated \<longrightarrow>
   updateNotification err updated = Inl (Error ''Failed to fetch updated notification'')"
  by (simp add: updateNotification_def)

lemma deleteNotification_error:
  "err \<longrightarrow> deleteNotification err = Inl (Error ''Failed to delete notification'')"
  by (simp add: deleteNotification_def)

lemma createPoll_error:
  "err \<longrightarrow> createPoll rt err qf opf now pollData = Inl (Error ''Failed to create poll'')"
  by (simp add: createPoll_def)

lemma createPoll_question_error:
  "n < length (poll_questions pollData) \<longrightarrow>
   qf n \<or> (poll_options (poll_questions pollData ! n) \<noteq> [] \<and> opf n) \<longrightarrow>
   createPoll rt err qf opf now pollData \<in>
     {Inl (Error ''Failed to create poll''), Inl (Error ''Failed to create poll question''),
      Inl (Error ''Failed to create poll options'')}"
  using createPoll_fails by blast

lemma submitPollResponse_error:
  "data existing = None \<longrightarrow> e1 \<longrightarrow>
   submitPollResponse existing e1 e2 = Inl (Error ''Failed to submit poll response'')"
  by (simp add: submitPollResponse_def)

lemma submitPollResponse_answers_error:
  "data existing = None \<longrightarrow> \<not> e1 \<longrightarrow> e2 \<longrightarrow>
   submitPollResponse existing e1 e2 = Inl (Error ''Failed to submit poll answers'')"
  by (simp add: submitPollResponse_def)

lemma updatePollStatus_error:
  "err \<longrightarrow> updatePollStatus err = Inl (Error ''Failed to update poll status'')"
  by (simp add: updatePollStatus_def)

lemma deletePoll_error: "deletePoll e1 e2 e3 e4 err = Inl TypeError"
  by (simp add: deletePoll_def in_filter_def)

lemma createSupportTicket_error:
  "f 0 \<longrightarrow>
   fst (createSupportTicket rt f st now ticket) = Inl (Error ''Failed to create support ticket'')"
  by (simp add: createSupportTicket_def db_insert_def)

lemma updateTicketStatus_error:
  "f 0 \<longrightarrow>
   fst (updateTicketStatus f st now ticketId ticketStatus adminNotes) =
     Inl (Error ''Failed to update ticket status'')"
  by (simp add: updateTicketStatus_def db_update_def)

lemma addUser_error: "f 0 \<longrightarrow> fst (addUser rt f defaults st now user) = Inr None"
  by (simp add: addUser_result)

lemma updateUserProfile_error: "f 0 \<longrightarrow> fst (updateUserProfile f st uid cleanedData) = Inr None"
  by (simp add: updateUserProfile_def db_update_def)

lemma blockUser_error:
  "f 0 \<longrightarrow> fst (blockUser f st uid reason blockedUntil) = Inl (Error ''Failed to block user'')"
  by (simp add: blockUser_def db_update_def)

lemma unblockUser_error:
  "f 0 \<longrightarrow> fst (unblockUser f st uid) = Inl (Error ''Failed to unblock user'')"
  by (simp add: unblockUser_def db_update_def)

lemma addAdminMessage_error:
  "f 0 \<longrightarrow> fst (addAdminMessage rt f st now uid msg) = Inl (Error ''Failed to add admin message'')"
  by (simp add: addAdminMessage_def db_insert_def)

lemma markMessageAsRead_error:
  "f 0 \<longrightarrow> fst (markMessageAsRead f st messageId) = Inl (Error ''Failed to mark message as read'')"
  by (simp add: markMessageAsRead_def db_update_def)

lemma deleteAdminMessage_error:
  "f 0 \<longrightarrow> fst (deleteAdminMessage f st messageId) = Inl (Error ''Failed to delete admin message'')"
  by (simp add: deleteAdminMessage_def db_delete_def)

text \<open>
  C5, as amended. When the backing-store call that a write operation checks reports an
  error, the operation throws a generic Error carrying a fixed message (for
  \<open>updateSettings\<close> a fixed text followed by the key of the first setting whose upsert
  failed), except \<open>addUser\<close> and \<open>updateUserProfile\<close>, which return null. An error of
  a call that the operation does not check is not signalled: the comment upsert and the
  aggregate update of \<open>submitRatingAndComment\<close>, the deletes of the ratings and comments
  in \<open>deleteLeader\<close>, and every call of \<open>deleteRating\<close>. \<open>deletePoll\<close> never gets as far
  as the store: it throws a \<^verbatim>\<open>TypeError\<close> while it builds its first request.
\<close>

theorem write_errors:
  "(f 0 \<longrightarrow> fst (addLeader rt f st now leaderData userId) = Inl (Error ''Failed to add leader'')) \<and>
   (f 1 \<longrightarrow>
    (\<exists>l. getLeaderById (calls_from 0 f) st leaderId = Some l \<and> (isAdmin \<or> addedByUserId l = userId)) \<longrightarrow>
    fst (updateLeader f st leaderId leaderData userId isAdmin) =
      Inl (Error ''Failed to update leader'')) \<and>
   (f 1 \<longrightarrow>
    fst (submitRatingAndComment rt f st now leaderId uid newRating comment sb) =
      Inl (Error ''Failed to submit rating'')) \<and>
   (\<not> f 1 \<longrightarrow> \<not> isl (fst (submitRatingAndComment rt f st now leaderId uid newRating comment sb))) \<and>
   (f 0 \<longrightarrow> fst (approveLeader f st leaderId) = Inl (Error ''Failed to approve leader'')) \<and>
   (f 0 \<longrightarrow>
    fst (updateLeaderStatus f st leaderId newStatus adminComment') =
      Inl (Error ''Failed to update leader status'')) \<and>
   fst (deleteLeader f st leaderId) =
     (if f 2 then Inl (Error ''Failed to delete leader'') else Inr ()) \<and>
   fst (deleteRating rt f st uid leaderId) = Inr () \<and>
   (i < length settings \<longrightarrow> fails i \<longrightarrow> (\<forall>j < i. \<not> fails j) \<longrightarrow>
    updateSettings fails settings =
      Inl (Error (''Failed to update setting: '' @ fst (settings ! i)))) \<and>
   (err \<longrightarrow>
    updateSiteSettings err = Inl (Error ''Database transaction for updating settings failed.'')) \<and>
   (err \<longrightarrow> addNotification rt err now payload = Inl (Error ''Failed to add notification'')) \<and>
   (err \<longrightarrow> updateNotification err updated = Inl (Error ''Failed to update notification'')) \<and>
   (\<not> err \<longrightarrow> error updated \<longrightarrow>
    updateNotification err updated = Inl (Error ''Failed to fetch updated notification'')) \<and>
   (err \<longrightarrow> deleteNotification err = Inl (Error ''Failed to delete notification'')) \<and>
   (err \<longrightarrow> createPoll rt err qf opf now pollData = Inl (Error ''Failed to create poll'')) \<and>
   (n < length (poll_questions pollData) \<longrightarrow>
    qf n \<or> (poll_options (poll_questions pollData ! n) \<noteq> [] \<and> opf n) \<longrightarrow>
    createPoll rt err qf opf now pollData \<in>
      {Inl (Error ''Failed to create poll''), Inl (Error ''Failed to create poll question''),
       Inl (Error ''Failed to create poll options'')}) \<and>
   (data existing = None \<longrightarrow> e1 \<longrightarrow>
    submitPollResponse existing e1 e2 = Inl (Error ''Failed to submit poll response'')) \<and>
   (data existing = None \<longrightarrow> \<not> e1 \<longrightarrow> e2 \<longrightarrow>
    submitPollResponse existing e1 e2 = Inl (Error ''Failed to submit poll answers'')) \<and>
   (err \<longrightarrow> updatePollStatus err = Inl (Error ''Failed to update poll status'')) \<and>
   deletePoll e1 e2 e3 e4 err = Inl TypeError \<and>
   (f 0 \<longrightarrow>
    fst (createSupportTicket rt f st now ticket) = Inl (Error ''Failed to create support ticket'')) \<and>
   (f 0 \<longrightarrow>
    fst (updateTicketStatus f st now ticketId ticketStatus adminNotes) =
      Inl (Error ''Failed to update ticket status'')) \<and>
   (f 0 \<longrightarrow> fst (addUser rt f defaults st now user) = Inr None) \<and>
   (f 0 \<longrightarrow> fst (updateUserProfile f st uid cleanedData) = Inr None) \<and>
   (f 0 \<longrightarrow> fst (blockUser f st uid reason blockedUntil) = Inl (Error ''Failed to block user'')) \<and>
   (f 0 \<longrightarrow> fst (unblockUser f st uid) = Inl (Error ''Failed to unblock user'')) \<and>
   (f 0 \<longrightarrow> fst (addAdminMessage rt f st now uid msg) = Inl (Error ''Failed to add admin message'')) \<and>
   (f 0 \<longrightarrow> fst (markMessageAsRead f st messageId) = Inl (Error ''Failed to mark message as read'')) \<and>
   (f 0 \<longrightarrow> fst (deleteAdminMessage f st messageId) = Inl (Error ''Failed to delete admin message''))"
  by (intro conjI addLeader_error updateLeader_error submit_rating_error submit_other_errors
      approveLeader_error updateLeaderStatus_error deleteLeader_error deleteRating_no_error
      updateSettings_error updateSiteSettings_error addNotification_error
      updateNotification_error updateNotification_fetch_error deleteNotification_error
      createPoll_error createPoll_question_error submitPollResponse_error
      submitPollResponse_answers_error updatePollStatus_error deletePoll_error
      createSupportTicket_error updateTicketStatus_error addUser_error updateUserProfile_error
      blockUser_error unblockUser_error addAdminMessage_error markMessageAsRead_error
      deleteAdminMessage_error)

theorem write_errors_witness:
  "fst (addLeader sample_runtime (\<lambda>n. True) sample_store 1704153600000 sample_data None) =
     Inl (Error ''Failed to add leader'') \<and>
   fst (updateLeader (\<lambda>n. n = 1) sample_store ''L1'' sample_data (Some ''u1'') False) =
     Inl (Error ''Failed to update leader'') \<and>
   updateSettings (\<lambda>i. i = 1)
     [(''contact_email'', Some ''help@example.org''), (''contact_phone'', None)] =
     Inl (Error ''Failed to update setting: contact_phone'') \<and>
   fst (updateUserProfile (\<lambda>n. True) sample_store ''u1'' (\<lambda>u. u\<lparr>u_age := Some 40\<rparr>)) = Inr None"
proof -
  note a = write_errors [where f = "\<lambda>n. True" and rt = sample_runtime and st = sample_store
      and now = 1704153600000 and leaderData = sample_data and userId = None
      and uid = "''u1''" and cleanedData = "\<lambda>u. u\<lparr>u_age := Some 40\<rparr>"]
  note b = write_errors [where f = "\<lambda>n. n = 1" and st = sample_store and leaderId = "''L1''"
      and leaderData = sample_data and userId = "Some ''u1''" and isAdmin = False
      and fails = "\<lambda>i. i = 1" and i = 1
      and settings = "[(''contact_email'', Some ''help@example.org''), (''contact_phone'', None)]"]
  have l: "\<exists>l. getLeaderById (calls_from 0 (\<lambda>n. n = 1)) sample_store ''L1'' = Some l \<and>
      (False \<or> addedByUserId l = Some ''u1'')"
    by (simp add: getLeaderById_eq sample_defs)
  have s: "(1::nat) < length [(''contact_email'', Some ''help@example.org''), (''contact_phone'', None)]
      \<and> (\<forall>j < (1::nat). \<not> j = 1)" by simp
  have 1: "fst (addLeader sample_runtime (\<lambda>n. True) sample_store 1704153600000 sample_data None) =
     Inl (Error ''Failed to add leader'')"
    using a [THEN conjunct1, rule_format] by simp
  have 2: "fst (updateLeader (\<lambda>n. n = 1) sample_store ''L1'' sample_data (Some ''u1'') False) =
     Inl (Error ''Failed to update leader'')"
    using b [THEN conjunct2, THEN conjunct1, rule_format] l by simp
  have 3: "updateSettings (\<lambda>i. i = 1)
     [(''contact_email'', Some ''help@example.org''), (''contact_phone'', None)] =
     Inl (Error ''Failed to update setting: contact_phone'')"
    using b [THEN conjunct2, THEN conjunct2, THEN conjunct2, THEN conjunct2, THEN conjunct2,
        THEN conjunct2, THEN conjunct2, THEN conjunct2, THEN conjunct1, rule_format] s by simp
  have 4: "fst (updateUserProfile (\<lambda>n. True) sample_store ''u1'' (\<lambda>u. u\<lparr>u_age := Some 40\<rparr>)) = Inr None"
    using a [THEN conjunct2, THEN conjunct2, THEN conjunct2, THEN conjunct2, THEN conjunct2,
        THEN conjunct2, THEN conjunct2, THEN conjunct2, THEN conjunct2, THEN conjunct2, THEN
        conjunct2, THEN conjunct2, THEN conjunct2, THEN conjunct2, THEN conjunct2, THEN
        conjunct2, THEN conjunct2, THEN conjunct2, THEN conjunct2, THEN conjunct2, THEN
        conjunct2, THEN conjunct2, THEN conjunct2, THEN conjunct1, rule_format] by simp
  from 1 2 3 4 show ?thesis by simp
qed

text \<open>
  The claim as stated fails: \<open>addUser\<close> signals a failed insert by returning null, and
  \<open>deleteRating\<close> returns normally when every one of its calls reports an error.
\<close>

theorem failed_write_returns_null:
  "fst (addUser sample_runtime (\<lambda>n. True) sample_user sample_store 1704153600000
     \<lparr>nu_email = ''Ravi@Example.org'', nu_password = Some ''s3cret'', nu_name = None\<rparr>) = Inr None \<and>
   fst (deleteRating sample_runtime (\<lambda>n. True) sample_store ''u1'' ''L1'') = Inr ()"
  by (simp add: addUser_def db_insert_def deleteRating_def Let_def)


subsection \<open>Failed reads\<close>

lemma failed_error [simp]: "failed r \<Longrightarrow> error r"
  by (simp add: failed_def)

































end
